theory Spec2Isabelle
  imports Complex_Main "HOL-Library.List_Lexorder" "HOL-Library.Multiset"
begin

section \<open>Data frames, series and Python errors\<close>

text \<open>
  The two geoms of \<^verbatim>\<open>plotnine/geoms/geom_dotplot.py\<close> and
  \<^verbatim>\<open>plotnine/geoms/geom_pointrange.py\<close> work on pandas data frames.  A frame is
  modelled row-major: the names of its columns and the list of its rows, in positional
  order (every frame the code builds has a fresh \<^verbatim>\<open>RangeIndex\<close>, so the label
  \<^verbatim>\<open>0\<close> is the first row).  A row holds the numeric cells and the object cells
  (colour names) by column name.  Numeric cells are exact reals: \<^verbatim>\<open>NaN\<close>
  and infinities are outside the model, and the frame operations do not round.  The
  rounding of \<^verbatim>\<open>float64\<close> is modelled on its own (\<open>float64\<close> below) for the two
  lines whose claimed property depends on it.

  Every exception the code can raise is a value of \<open>pyerr\<close>; a computation that may
  raise returns \<open>pyerr + 'a\<close>, with \<open>Inl\<close> the exception.  \<open>NameError\<close> stands for
  the use of a local name that was never bound (Python's \<^verbatim>\<open>UnboundLocalError\<close> is a
  subclass of it).  \<open>NonFinite\<close> is not an exception: it marks the places where numpy
  would continue with \<^verbatim>\<open>inf\<close> or \<^verbatim>\<open>nan\<close>, values the model does not have.
\<close>

datatype pyerr = KeyError | NameError | ValueError | IndexError | NonFinite

type_synonym series = "real list"

record row =
  num :: "string \<Rightarrow> real"
  obj :: "string \<Rightarrow> string"

record frame =
  columns :: "string list"
  rows :: "row list"

text \<open>\<^verbatim>\<open>data[c]\<close> read as a numeric series, and as a series of objects.\<close>

definition col :: "frame \<Rightarrow> string \<Rightarrow> pyerr + series" where
  "col df c = (if c \<in> set (columns df) then Inr (map (\<lambda>r. num r c) (rows df)) else Inl KeyError)"

definition col_obj :: "frame \<Rightarrow> string \<Rightarrow> pyerr + string list" where
  "col_obj df c = (if c \<in> set (columns df) then Inr (map (\<lambda>r. obj r c) (rows df)) else Inl KeyError)"

definition put :: "string \<Rightarrow> real \<Rightarrow> row \<Rightarrow> row" where
  "put c v r = r\<lparr>num := (num r)(c := v)\<rparr>"

definition add_col :: "string \<Rightarrow> string list \<Rightarrow> string list" where
  "add_col c cs = (if c \<in> set cs then cs else cs @ [c])"

text \<open>
  \<^verbatim>\<open>data[c] = f(row)\<close>: the assignment of a series computed elementwise from columns
  of the same frame (pandas aligns on the index, so the operation is row by row); a
  scalar is the constant function.
\<close>

definition set_col_rowwise :: "frame \<Rightarrow> string \<Rightarrow> (row \<Rightarrow> real) \<Rightarrow> frame" where
  "set_col_rowwise df c f = df\<lparr>columns := add_col c (columns df), rows := map (\<lambda>r. put c (f r) r) (rows df)\<rparr>"

definition set_col_scalar :: "frame \<Rightarrow> string \<Rightarrow> real \<Rightarrow> frame" where
  "set_col_scalar df c v = set_col_rowwise df c (\<lambda>r. v)"

text \<open>
  \<^verbatim>\<open>df[c] = values\<close> for a sequence of values: pandas raises \<^verbatim>\<open>ValueError\<close> when
  the length differs from the number of rows.
\<close>

definition set_col :: "frame \<Rightarrow> string \<Rightarrow> series \<Rightarrow> pyerr + frame" where
  "set_col df c vs =
     (if length vs = length (rows df)
      then Inr (df\<lparr>columns := add_col c (columns df), rows := map2 (\<lambda>r v. put c v r) (rows df) vs\<rparr>)
      else Inl ValueError)"

text \<open>\<^verbatim>\<open>data.iloc[idx]\<close> followed by \<^verbatim>\<open>reset_index(drop=True)\<close>.\<close>

definition iloc :: "frame \<Rightarrow> nat list \<Rightarrow> pyerr + frame" where
  "iloc df idx =
     (if list_all (\<lambda>i. i < length (rows df)) idx
      then Inr (df\<lparr>rows := map (\<lambda>i. rows df ! i) idx\<rparr>)
      else Inl IndexError)"

text \<open>\<^verbatim>\<open>np.max\<close> of a series (it raises on an empty one), and \<^verbatim>\<open>Series.min()\<close>,
  \<^verbatim>\<open>Series.max()\<close> (\<^verbatim>\<open>nan\<close> on an empty one).\<close>

fun np_max :: "series \<Rightarrow> pyerr + real" where
  "np_max [] = Inl ValueError"
| "np_max (v # vs) = Inr (fold max vs v)"

fun series_min :: "series \<Rightarrow> pyerr + real" where
  "series_min [] = Inl NonFinite"
| "series_min (v # vs) = Inr (fold min vs v)"

fun series_max :: "series \<Rightarrow> pyerr + real" where
  "series_max [] = Inl NonFinite"
| "series_max (v # vs) = Inr (fold max vs v)"

text \<open>\<^verbatim>\<open>int(c)\<close> truncates towards zero; \<^verbatim>\<open>range(n)\<close> is empty for \<open>n \<le> 0\<close>.\<close>

definition py_int :: "real \<Rightarrow> int" where
  "py_int c = (if 0 \<le> c then \<lfloor>c\<rfloor> else \<lceil>c\<rceil>)"

definition py_range :: "int \<Rightarrow> nat list" where
  "py_range n = [0..<nat n]"

section \<open>The helpers of \<^verbatim>\<open>plotnine.utils\<close>\<close>

text \<open>
  \<^verbatim>\<open>resolution\<close> and \<^verbatim>\<open>groupby_apply\<close> are imported from
  \<^verbatim>\<open>plotnine/utils.py\<close>, which is not among the sources.  \<^verbatim>\<open>resolution\<close> is a
  parameter.  Of \<^verbatim>\<open>groupby_apply\<close> the sources fix what it does on a frame that has
  rows; whether it raises on a frame without rows (as \<^verbatim>\<open>pd.concat\<close> of an empty list
  does) or returns a copy is not visible, so that choice is a parameter as well.
\<close>

record utils =
  resolution :: "series \<Rightarrow> bool \<Rightarrow> pyerr + real"
  groupby_empty_raises :: bool

definition group_key :: "string list \<Rightarrow> row \<Rightarrow> real list" where
  "group_key cols r = map (num r) cols"

definition group_frames :: "frame \<Rightarrow> string list \<Rightarrow> frame list" where
  "group_frames df cols =
     map (\<lambda>k. df\<lparr>rows := filter (\<lambda>r. group_key cols r = k) (rows df)\<rparr>)
       (sort (remdups (map (group_key cols) (rows df))))"

fun apply_all :: "(frame \<Rightarrow> pyerr + frame) \<Rightarrow> frame list \<Rightarrow> pyerr + frame list" where
  "apply_all f [] = Inr []"
| "apply_all f (g # gs) =
     (case f g of Inl e \<Rightarrow> Inl e
      | Inr g' \<Rightarrow> (case apply_all f gs of Inl e \<Rightarrow> Inl e | Inr gs' \<Rightarrow> Inr (g' # gs')))"

definition pd_concat :: "frame list \<Rightarrow> pyerr + frame" where
  "pd_concat fs =
     (case fs of [] \<Rightarrow> Inl ValueError
      | f # _ \<Rightarrow> Inr (f\<lparr>columns := remdups (concat (map columns fs)), rows := concat (map rows fs)\<rparr>))"

text \<open>
  Modelled from the spec: \<^verbatim>\<open>groupby_apply(df, cols, func)\<close> of
  \<^verbatim>\<open>plotnine/utils.py\<close> is missing from the sources.  Following the comments of
  \<^verbatim>\<open>setup_data\<close> (``within each x, or x+group, set countidx=1,2,3''), it splits the
  frame into the groups of rows that agree on the columns \<open>cols\<close> (each group keeps the
  frame's row order; the groups are taken in the order of their keys, as
  \<^verbatim>\<open>DataFrame.groupby\<close> does), calls \<open>func\<close> on each group, stopping at the first
  call that raises, and concatenates the results under a fresh index.
\<close>

definition groupby_apply :: "utils \<Rightarrow> frame \<Rightarrow> string list \<Rightarrow> (frame \<Rightarrow> pyerr + frame) \<Rightarrow> pyerr + frame" where
  "groupby_apply U df cols func =
     (if rows df = [] then (if groupby_empty_raises U then Inl ValueError else Inr df)
      else if \<not> list_all (\<lambda>c. c \<in> set (columns df)) cols then Inl KeyError
      else (case apply_all func (group_frames df cols) of
              Inl e \<Rightarrow> Inl e
            | Inr gs \<Rightarrow> pd_concat gs))"

section \<open>\<^verbatim>\<open>geom_dotplot.setup_data\<close>\<close>

text \<open>
  The parameters \<^verbatim>\<open>self.params\<close> and \<^verbatim>\<open>self._stat.params\<close> are dictionaries; the
  records name the keys \<^verbatim>\<open>setup_data\<close> reads, and the record extension holds every
  other key.  \<open>gp_stackdir = None\<close> is Python's \<^verbatim>\<open>None\<close>; \<open>sp_width = None\<close>
  likewise.
\<close>

record gparams =
  gp_position :: string
  gp_stackgroups :: bool
  gp_stackdir :: "string option"

record sparams =
  sp_method :: string
  sp_binpositions :: string
  sp_width :: "real option"
  sp_binaxis :: string

record ('g, 's) geom_dotplot =
  params :: "'g gparams_scheme"
  stat_params :: "'s sparams_scheme"

text \<open>\<^verbatim>\<open>warn(msg, PlotnineWarning)\<close> appends to the warnings issued so far.\<close>

definition warn :: "string \<Rightarrow> string list \<Rightarrow> string list" where
  "warn msg issued = issued @ [msg]"

definition position_stack_msg :: string where
  "position_stack_msg = ''position='stack' doesn't work properly with geom_dotplot. Use stackgroups=True instead.''"

definition stackgroups_msg :: string where
  "stackgroups_msg = ''geom_dotplot called with stackgroups=TRUE and method='dotdensity'. You probably want to set binpositions='all'' @ [CHR 0x27]"

text \<open>Lines 61--71: the two warnings.\<close>

definition issue_warnings :: "'g gparams_scheme \<Rightarrow> 's sparams_scheme \<Rightarrow> string list \<Rightarrow> string list" where
  "issue_warnings gp sp issued =
     (let w1 = (if gp_position gp = ''stack'' then warn position_stack_msg issued else issued)
      in if gp_stackgroups gp \<and> sp_method sp = ''dotdensity'' \<and> sp_binpositions sp = ''bygroup''
         then warn stackgroups_msg w1 else w1)"

text \<open>Lines 73--77: the \<^verbatim>\<open>width\<close> column is added to the caller's frame in place.\<close>

definition ensure_width :: "utils \<Rightarrow> 's sparams_scheme \<Rightarrow> frame \<Rightarrow> pyerr + frame" where
  "ensure_width U sp data =
     (if ''width'' \<notin> set (columns data) then
        (if sp_width sp \<noteq> None \<and> sp_width sp \<noteq> Some 0
         then Inr (set_col_scalar data ''width'' (the (sp_width sp)))
         else (case col data ''x'' of
                 Inl e \<Rightarrow> Inl e
               | Inr xs \<Rightarrow> (case resolution U xs False of
                              Inl e \<Rightarrow> Inl e
                            | Inr res \<Rightarrow> Inr (set_col_scalar data ''width'' (res * (9 / 10))))))
      else Inr data)"

text \<open>
  Lines 80--99: the stacking function and the range of the stack axis.  The chain has
  no \<^verbatim>\<open>else\<close>: for any other \<^verbatim>\<open>stackdir\<close> the three names stay unbound
  (\<open>None\<close>), and their first use raises.
\<close>

record stacking =
  stackdots :: "series \<Rightarrow> pyerr + series"
  stackaxismin :: real
  stackaxismax :: real

definition choose_stacking :: "string option \<Rightarrow> stacking option" where
  "choose_stacking stackdir =
     (if stackdir = None \<or> stackdir = Some ''up'' then
        Some \<lparr>stackdots = (\<lambda>a. Inr (map (\<lambda>v. v - 1 / 2) a)), stackaxismin = 0, stackaxismax = 1\<rparr>
      else if stackdir = Some ''down'' then
        Some \<lparr>stackdots = (\<lambda>a. Inr (map (\<lambda>v. - v + 1 / 2) a)), stackaxismin = - 1, stackaxismax = 0\<rparr>
      else if stackdir = Some ''center'' then
        Some \<lparr>stackdots = (\<lambda>a. case np_max (map (\<lambda>v. v - 1) a) of
                                  Inl e \<Rightarrow> Inl e
                                | Inr m \<Rightarrow> Inr (map (\<lambda>v. v - 1 - m / 2) a)),
              stackaxismin = - (1 / 2), stackaxismax = 1 / 2\<rparr>
      else if stackdir = Some ''centerwhole'' then
        Some \<lparr>stackdots = (\<lambda>a. case np_max (map (\<lambda>v. v - 1) a) of
                                  Inl e \<Rightarrow> Inl e
                                | Inr m \<Rightarrow> Inr (map (\<lambda>v. v - 1 - of_int \<lfloor>m / 2\<rfloor>) a)),
              stackaxismin = - (1 / 2), stackaxismax = 1 / 2\<rparr>
      else None)"

text \<open>Lines 103--106: fill the bins.\<close>

definition fill_idx :: "series \<Rightarrow> nat list" where
  "fill_idx counts = concat (map (\<lambda>(i, c). map (\<lambda>j. i) (py_range (py_int c))) (enumerate 0 counts))"

definition fill_bins :: "frame \<Rightarrow> pyerr + frame" where
  "fill_bins data = (case col data ''count'' of Inl e \<Rightarrow> Inl e | Inr counts \<Rightarrow> iloc data (fill_idx counts))"

text \<open>Lines 110--112.\<close>

definition groupvars :: "'g gparams_scheme \<Rightarrow> 's sparams_scheme \<Rightarrow> string list" where
  "groupvars gp sp = [sp_binaxis sp, ''PANEL''] @ (if \<not> gp_stackgroups gp then [''group''] else [])"

text \<open>Lines 116--119: the function applied to each stack.\<close>

definition func :: "stacking option \<Rightarrow> frame \<Rightarrow> pyerr + frame" where
  "func st df =
     (case set_col df ''countidx'' (map real [1..<length (rows df) + 1]) of
        Inl e \<Rightarrow> Inl e
      | Inr df1 \<Rightarrow>
         (case st of
            None \<Rightarrow> Inl NameError
          | Some s \<Rightarrow>
             (case col df1 ''countidx'' of
                Inl e \<Rightarrow> Inl e
              | Inr a \<Rightarrow> (case stackdots s a of
                            Inl e \<Rightarrow> Inl e
                          | Inr sp \<Rightarrow> set_col df1 ''stackpos'' sp))))"

text \<open>Lines 146--149: the second \<^verbatim>\<open>func\<close>, which closes over the frame \<open>data\<close>;
  \<^verbatim>\<open>data['binwidth'][0]\<close> is the first row's bin width.\<close>

definition binwidth0 :: "frame \<Rightarrow> pyerr + real" where
  "binwidth0 data =
     (case col data ''binwidth'' of Inl e \<Rightarrow> Inl e | Inr bws \<Rightarrow> (case bws of [] \<Rightarrow> Inl KeyError | bw # _ \<Rightarrow> Inr bw))"

definition func_y :: "frame \<Rightarrow> frame \<Rightarrow> pyerr + frame" where
  "func_y data df =
     (case col df ''y'' of Inl e \<Rightarrow> Inl e | Inr ys \<Rightarrow>
       (case series_min ys of Inl e \<Rightarrow> Inl e | Inr ylo \<Rightarrow>
         (case binwidth0 data of Inl e \<Rightarrow> Inl e | Inr bw \<Rightarrow>
           (let df1 = set_col_scalar df ''ymin'' (ylo - bw / 2)
            in (case col df1 ''y'' of Inl e \<Rightarrow> Inl e | Inr ys1 \<Rightarrow>
                 (case series_max ys1 of Inl e \<Rightarrow> Inl e | Inr yhi \<Rightarrow>
                   (case binwidth0 data of Inl e \<Rightarrow> Inl e | Inr bw1 \<Rightarrow>
                      Inr (set_col_scalar df1 ''ymax'' (yhi + bw1 / 2)))))))))"

text \<open>Lines 126--152: the bounding boxes.\<close>

definition bounding_boxes :: "utils \<Rightarrow> stacking option \<Rightarrow> string \<Rightarrow> frame \<Rightarrow> pyerr + frame" where
  "bounding_boxes U st binaxis data =
     (if binaxis = ''x'' then
        (if ''x'' \<notin> set (columns data) \<or> ''binwidth'' \<notin> set (columns data) then Inl KeyError
         else
           (let d1 = set_col_rowwise data ''xmin'' (\<lambda>r. num r ''x'' - num r ''binwidth'' / 2);
                d2 = set_col_rowwise d1 ''xmax'' (\<lambda>r. num r ''x'' + num r ''binwidth'' / 2)
            in case st of
                 None \<Rightarrow> Inl NameError
               | Some s \<Rightarrow>
                   Inr (set_col_scalar
                         (set_col_scalar (set_col_scalar d2 ''ymin'' (stackaxismin s)) ''ymax'' (stackaxismax s))
                         ''y'' 0)))
      else if binaxis = ''y'' then
        (case groupby_apply U data [''group''] (func_y data) of
           Inl e \<Rightarrow> Inl e
         | Inr d1 \<Rightarrow>
            (if ''x'' \<notin> set (columns d1) \<or> ''width'' \<notin> set (columns d1) then Inl KeyError
             else (case st of
                     None \<Rightarrow> Inl NameError
                   | Some s \<Rightarrow>
                      (let d2 = set_col_rowwise d1 ''xmin'' (\<lambda>r. num r ''x'' + num r ''width'' * stackaxismin s)
                       in Inr (set_col_rowwise d2 ''xmax'' (\<lambda>r. num r ''x'' + num r ''width'' * stackaxismax s))))))
      else Inr data)"

text \<open>Lines 101--123: the frame of dots, each with its place in its stack.\<close>

definition stack_dots :: "utils \<Rightarrow> 'g gparams_scheme \<Rightarrow> 's sparams_scheme \<Rightarrow> frame \<Rightarrow> pyerr + frame" where
  "stack_dots U gp sp data =
     (case fill_bins data of
        Inl e \<Rightarrow> Inl e
      | Inr filled \<Rightarrow> groupby_apply U filled (groupvars gp sp) (func (choose_stacking (gp_stackdir gp))))"

text \<open>
  \<^verbatim>\<open>setup_data\<close> as a whole.  Its outcome is the caller's frame as the call leaves
  it (the \<^verbatim>\<open>width\<close> column is assigned on the object the caller passed; every later
  assignment is on a new frame), the warnings issued, and the returned frame or the
  exception raised.
\<close>

record setup_out =
  caller_data :: frame
  warnings :: "string list"
  result :: "pyerr + frame"

definition setup_data :: "utils \<Rightarrow> ('g, 's, 'z) geom_dotplot_scheme \<Rightarrow> frame \<Rightarrow> setup_out" where
  "setup_data U self data =
     (let gp = params self; sp = stat_params self; issued = issue_warnings gp sp []
      in case ensure_width U sp data of
           Inl e \<Rightarrow> \<lparr>caller_data = data, warnings = issued, result = Inl e\<rparr>
         | Inr data1 \<Rightarrow>
             \<lparr>caller_data = data1, warnings = issued,
              result = (case stack_dots U gp sp data1 of
                          Inl e \<Rightarrow> Inl e
                        | Inr stacked \<Rightarrow> bounding_boxes U (choose_stacking (gp_stackdir gp)) (sp_binaxis sp) stacked)\<rparr>)"

section \<open>\<^verbatim>\<open>geom_dotplot.draw_group\<close>\<close>

text \<open>
  The coordinate system and the axes are objects handed to \<^verbatim>\<open>draw_group\<close>; they are
  records of what the method uses.  \<^verbatim>\<open>coord.transform(data, panel_params)\<close> is
  handed the caller's frame: it returns that frame as the call leaves it, and the
  transformed frame.  \<open>window_width\<close> and \<open>window_height\<close> are the width and height of
  \<^verbatim>\<open>ax.get_window_extent()\<close> in inches.  \<^verbatim>\<open>to_rgba\<close> (of
  \<^verbatim>\<open>plotnine/utils.py\<close>) is a parameter.
\<close>

record ranges =
  range_x :: "real \<times> real"
  range_y :: "real \<times> real"

record 'pp coord =
  coord_transform :: "frame \<Rightarrow> 'pp \<Rightarrow> pyerr + (frame \<times> frame)"
  coord_range :: "'pp \<Rightarrow> ranges"

record ellipse =
  xy :: "real \<times> real"
  width :: real
  height :: real

record 'c patch_collection =
  patches :: "ellipse list"
  edgecolors :: 'c
  facecolors :: 'c
  rasterized :: bool

record 'c axes =
  window_width :: real
  window_height :: real
  collections :: "'c patch_collection list"

record dparams =
  dotsize :: real
  stackratio :: real
  binaxis :: string
  raster :: bool

text \<open>\<^verbatim>\<open>np.ptp\<close> of a pair of limits, and a numpy division (\<^verbatim>\<open>inf\<close> or \<^verbatim>\<open>nan\<close> on a
  zero divisor, with a warning and no exception).\<close>

definition np_ptp :: "real \<times> real \<Rightarrow> real" where
  "np_ptp lh = max (fst lh) (snd lh) - min (fst lh) (snd lh)"

definition np_div :: "real \<Rightarrow> real \<Rightarrow> pyerr + real" where
  "np_div a b = (if b = 0 then Inl NonFinite else Inr (a / b))"

text \<open>\<^verbatim>\<open>data.loc[0, c]\<close>.\<close>

definition loc0 :: "frame \<Rightarrow> string \<Rightarrow> pyerr + real" where
  "loc0 df c =
     (if c \<in> set (columns df) then (case rows df of [] \<Rightarrow> Inl KeyError | r # _ \<Rightarrow> Inr (num r c))
      else Inl KeyError)"

text \<open>Lines 175--185: the size of the dots and where they go.\<close>

definition aspect_factor :: "'c axes \<Rightarrow> ranges \<Rightarrow> pyerr + real" where
  "aspect_factor ax rg =
     (case np_div (window_width ax) (window_height ax) of
        Inl e \<Rightarrow> Inl e
      | Inr q \<Rightarrow> np_div (q * np_ptp (range_y rg)) (np_ptp (range_x rg)))"

definition dot_geometry :: "frame \<Rightarrow> dparams \<Rightarrow> real \<Rightarrow> pyerr + (real \<times> real \<times> series \<times> series)" where
  "dot_geometry d ps factor =
     (case loc0 d ''binwidth'' of Inl e \<Rightarrow> Inl e | Inr bw0 \<Rightarrow>
       (case col d ''stackpos'' of Inl e \<Rightarrow> Inl e | Inr sps \<Rightarrow>
         (let size = bw0 * dotsize ps;
              offsets = map (\<lambda>v. v * stackratio ps) sps
          in if binaxis ps = ''x'' then
               (case col d ''x'' of Inl e \<Rightarrow> Inl e | Inr xs \<Rightarrow>
                 (case col d ''y'' of Inl e \<Rightarrow> Inl e | Inr ys \<Rightarrow>
                    Inr (size, size * factor, xs, map2 (\<lambda>y off. y + size * factor * off) ys offsets)))
             else if binaxis ps = ''y'' then
               (case np_div size factor of Inl e \<Rightarrow> Inl e | Inr w \<Rightarrow>
                 (case col d ''x'' of Inl e \<Rightarrow> Inl e | Inr xs \<Rightarrow>
                   (case col d ''y'' of Inl e \<Rightarrow> Inl e | Inr ys \<Rightarrow>
                      Inr (w, size, map2 (\<lambda>x off. x + w * off) xs offsets, ys))))
             else Inl NameError)))"

text \<open>
  \<^verbatim>\<open>draw_group\<close>: the result is the caller's frame as the call leaves it and the axes
  with the new collection added.
\<close>

definition dotplot_draw_group ::
  "(string list \<Rightarrow> series \<Rightarrow> pyerr + 'c) \<Rightarrow> frame \<Rightarrow> 'pp \<Rightarrow> 'pp coord \<Rightarrow> 'c axes \<Rightarrow> dparams
     \<Rightarrow> pyerr + (frame \<times> 'c axes)" where
  "dotplot_draw_group to_rgba data panel_params coord ax ps =
     (case coord_transform coord data panel_params of Inl e \<Rightarrow> Inl e | Inr (caller, d) \<Rightarrow>
       (case col_obj d ''fill'' of Inl e \<Rightarrow> Inl e | Inr fills \<Rightarrow>
         (case col d ''alpha'' of Inl e \<Rightarrow> Inl e | Inr alphas \<Rightarrow>
           (case to_rgba fills alphas of Inl e \<Rightarrow> Inl e | Inr fill \<Rightarrow>
             (case col_obj d ''color'' of Inl e \<Rightarrow> Inl e | Inr colors \<Rightarrow>
               (case to_rgba colors alphas of Inl e \<Rightarrow> Inl e | Inr color \<Rightarrow>
                 (case aspect_factor ax (coord_range coord panel_params) of Inl e \<Rightarrow> Inl e | Inr factor \<Rightarrow>
                   (case dot_geometry d ps factor of Inl e \<Rightarrow> Inl e | Inr (w, h, xpos, ypos) \<Rightarrow>
                      Inr (caller,
                           ax\<lparr>collections := collections ax @
                                [\<lparr>patches = map (\<lambda>p. \<lparr>xy = p, width = w, height = h\<rparr>) (zip xpos ypos),
                                  edgecolors = color, facecolors = fill, rasterized = raster ps\<rparr>]\<rparr>)))))))))"

section \<open>\<^verbatim>\<open>geom_pointrange.draw_group\<close>\<close>

text \<open>
  \<^verbatim>\<open>geom_linerange\<close> and \<^verbatim>\<open>geom_point\<close> are other modules of the package; their
  \<^verbatim>\<open>draw_group\<close> and the default stroke of \<^verbatim>\<open>geom_point\<close> are parameters.  A
  \<^verbatim>\<open>draw_group\<close> is handed a frame object and the axes: it returns the frame as the
  call leaves it and the axes as drawn on.
\<close>

type_synonym ('pp, 'co, 'ax, 'ps) drawer = "frame \<Rightarrow> 'pp \<Rightarrow> 'co \<Rightarrow> 'ax \<Rightarrow> 'ps \<Rightarrow> pyerr + (frame \<times> 'ax)"

record ('pp, 'co, 'ax, 'ps) geoms =
  linerange_draw_group :: "('pp, 'co, 'ax, 'ps) drawer"
  point_draw_group :: "('pp, 'co, 'ax, 'ps) drawer"
  point_default_stroke :: real

record pparams =
  fatten :: real

text \<open>
  Lines 50--54.  \<^verbatim>\<open>geom_linerange\<close> is handed \<^verbatim>\<open>data.copy()\<close>, a new object: what it
  leaves in the copy is dropped.  The two assignments are on the caller's frame, which
  is then handed to \<^verbatim>\<open>geom_point\<close>.
\<close>

definition pointrange_draw_group ::
  "('pp, 'co, 'ax, 'z pparams_scheme) geoms \<Rightarrow> ('pp, 'co, 'ax, 'z pparams_scheme) drawer" where
  "pointrange_draw_group G data panel_params coord ax ps =
     (case linerange_draw_group G data panel_params coord ax ps of
        Inl e \<Rightarrow> Inl e
      | Inr (copy_after, ax1) \<Rightarrow>
         (case col data ''size'' of
            Inl e \<Rightarrow> Inl e
          | Inr sizes \<Rightarrow>
             (let d1 = set_col_rowwise data ''size'' (\<lambda>r. num r ''size'' * fatten ps);
                  d2 = set_col_scalar d1 ''stroke'' (point_default_stroke G)
              in point_draw_group G d2 panel_params coord ax1 ps)))"

text \<open>
  The claimed decomposition, written from the claim's words: the drawing effects of
  \<^verbatim>\<open>geom_linerange.draw_group\<close> applied to a copy of the data, followed by those of
  \<^verbatim>\<open>geom_point.draw_group\<close> applied to the data with the \<^verbatim>\<open>size\<close> column
  multiplied by \<^verbatim>\<open>fatten\<close> and a \<^verbatim>\<open>stroke\<close> column set to the default stroke.
\<close>

definition drawn_on_copy :: "('pp, 'co, 'ax, 'ps) drawer \<Rightarrow> frame \<Rightarrow> 'pp \<Rightarrow> 'co \<Rightarrow> 'ax \<Rightarrow> 'ps \<Rightarrow> pyerr + 'ax" where
  "drawn_on_copy draw data panel_params coord ax ps =
     (case draw data panel_params coord ax ps of Inl e \<Rightarrow> Inl e | Inr (copy_after, ax') \<Rightarrow> Inr ax')"

definition fattened :: "real \<Rightarrow> real \<Rightarrow> frame \<Rightarrow> pyerr + frame" where
  "fattened fat stroke data =
     (if ''size'' \<in> set (columns data)
      then Inr (data\<lparr>columns := add_col ''stroke'' (columns data),
                     rows := map (\<lambda>r. put ''stroke'' stroke (put ''size'' (num r ''size'' * fat) r)) (rows data)\<rparr>)
      else Inl KeyError)"

definition pointrange_composed ::
  "('pp, 'co, 'ax, 'z pparams_scheme) geoms \<Rightarrow> frame \<Rightarrow> 'pp \<Rightarrow> 'co \<Rightarrow> 'ax \<Rightarrow> 'z pparams_scheme \<Rightarrow> pyerr + 'ax" where
  "pointrange_composed G data panel_params coord ax ps =
     (case drawn_on_copy (linerange_draw_group G) data panel_params coord ax ps of
        Inl e \<Rightarrow> Inl e
      | Inr ax1 \<Rightarrow>
         (case fattened (fatten ps) (point_default_stroke G) data of
            Inl e \<Rightarrow> Inl e
          | Inr d \<Rightarrow> (case point_draw_group G d panel_params coord ax1 ps of
                        Inl e \<Rightarrow> Inl e
                      | Inr (d', ax2) \<Rightarrow> Inr ax2)))"

section \<open>Lines 132--133 in \<^verbatim>\<open>float64\<close> arithmetic\<close>

text \<open>
  \<open>float64 r\<close> is the binary64 number nearest to the real \<open>r\<close>, ties to the even
  significand (IEEE 754 round-to-nearest-even with a 53-bit significand), for \<open>r\<close> in
  the normal range; overflow and subnormal numbers are not modelled.  Every
  \<^verbatim>\<open>float64\<close> operation returns the rounded exact result, and a Python literal such
  as \<^verbatim>\<open>0.3\<close> is \<open>float64 (3 / 10)\<close>.  \<open>bounding_box_x_float64\<close> is the pair
  \<^verbatim>\<open>(x - binwidth/2, x + binwidth/2)\<close> of lines 132 and 133 for one row, each
  operation rounded.
\<close>

definition round_half_even :: "real \<Rightarrow> int" where
  "round_half_even t =
     (if t - of_int \<lfloor>t\<rfloor> < 1 / 2 then \<lfloor>t\<rfloor>
      else if 1 / 2 < t - of_int \<lfloor>t\<rfloor> then \<lfloor>t\<rfloor> + 1
      else if even \<lfloor>t\<rfloor> then \<lfloor>t\<rfloor> else \<lfloor>t\<rfloor> + 1)"

definition float64_ulp :: "real \<Rightarrow> real" where
  "float64_ulp r = 2 powr (of_int \<lfloor>log 2 \<bar>r\<bar>\<rfloor> - 52)"

definition float64 :: "real \<Rightarrow> real" where
  "float64 r = (if r = 0 then 0 else of_int (round_half_even (r / float64_ulp r)) * float64_ulp r)"

definition bounding_box_x_float64 :: "real \<Rightarrow> real \<Rightarrow> real \<times> real" where
  "bounding_box_x_float64 xv bw = (float64 (xv - float64 (bw / 2)), float64 (xv + float64 (bw / 2)))"

section \<open>A stack after stacking\<close>

text \<open>
  The stack position of the dot with index \<open>i\<close> in a stack of \<open>n\<close> dots, in closed
  form (in a stack of \<open>n\<close> dots the largest \<open>countidx - 1\<close> is \<open>n - 1\<close>), and the rows
  of a stack once \<^verbatim>\<open>countidx\<close> and \<^verbatim>\<open>stackpos\<close> are assigned.  Both serve the proofs:
  the rows that \<open>func\<close> returns are shown to be \<open>stack_rows\<close> of the rows it is given.
\<close>

definition expected_stackpos :: "string option \<Rightarrow> nat \<Rightarrow> nat \<Rightarrow> real" where
  "expected_stackpos stackdir n i =
     (if stackdir = None \<or> stackdir = Some ''up'' then real i - 1 / 2
      else if stackdir = Some ''down'' then - real i + 1 / 2
      else if stackdir = Some ''center'' then real i - 1 - (real n - 1) / 2
      else real i - 1 - of_int \<lfloor>(real n - 1) / 2\<rfloor>)"

definition stack_rows :: "string option \<Rightarrow> row list \<Rightarrow> row list" where
  "stack_rows sd rs =
     map2 (\<lambda>r i. put ''stackpos'' (expected_stackpos sd (length rs) i) (put ''countidx'' (real i) r))
       rs [1..<Suc (length rs)]"

section \<open>Example inputs\<close>

text \<open>
  A binned data set of three bins: two dots at \<open>x = 1\<close> in group 1, an empty bin at
  \<open>x = 2\<close>, and one dot at \<open>x = 1\<close> in group 2; the bin widths differ from row to row.
\<close>

definition blank_row :: row where
  "blank_row = \<lparr>num = (\<lambda>c. 0), obj = (\<lambda>c. ''black'')\<rparr>"

definition bin_row :: "real \<Rightarrow> real \<Rightarrow> real \<Rightarrow> real \<Rightarrow> row" where
  "bin_row xv cnt grp bw =
     put ''x'' xv (put ''y'' xv (put ''count'' cnt (put ''group'' grp (put ''binwidth'' bw
       (put ''PANEL'' 1 (put ''alpha'' 1 blank_row))))))"

definition example_data :: frame where
  "example_data =
     \<lparr>columns = [''x'', ''y'', ''count'', ''binwidth'', ''PANEL'', ''group'', ''alpha'', ''fill'', ''color''],
      rows = [bin_row 1 2 1 (1 / 2), bin_row 2 0 1 (1 / 4), bin_row 1 1 2 (3 / 4)]\<rparr>"

text \<open>The same with a negative count in the first bin.\<close>

definition example_negative :: frame where
  "example_negative =
     \<lparr>columns = [''x'', ''y'', ''count'', ''binwidth'', ''PANEL'', ''group'', ''alpha'', ''fill'', ''color''],
      rows = [bin_row 1 (- 1) 1 (1 / 2), bin_row 2 1 1 (1 / 2)]\<rparr>"

definition example_utils :: utils where
  "example_utils = \<lparr>resolution = (\<lambda>xs zero. Inr 1), groupby_empty_raises = True\<rparr>"

definition example_geom :: "string option \<Rightarrow> bool \<Rightarrow> string \<Rightarrow> (unit, unit, nat) geom_dotplot_scheme" where
  "example_geom stackdir stackgroups axis =
     \<lparr>params = \<lparr>gp_position = ''stack'', gp_stackgroups = stackgroups, gp_stackdir = stackdir\<rparr>,
      stat_params = \<lparr>sp_method = ''dotdensity'', sp_binpositions = ''bygroup'', sp_width = None, sp_binaxis = axis\<rparr>,
      \<dots> = 0\<rparr>"

text \<open>Two empty bins, with a column \<^verbatim>\<open>z\<close>; helpers whose \<^verbatim>\<open>groupby_apply\<close> returns a copy of a frame without rows;
  a geom whose stat has width 2 and bin axis \<^verbatim>\<open>y\<close>.\<close>

definition example_no_dots :: frame where
  "example_no_dots =
     \<lparr>columns = [''x'', ''y'', ''z'', ''count'', ''binwidth'', ''PANEL'', ''group'', ''alpha'', ''fill'', ''color''],
      rows = [bin_row 1 0 1 (1 / 2), bin_row 2 0 1 (1 / 2)]\<rparr>"

definition example_utils_copy :: utils where
  "example_utils_copy = \<lparr>resolution = (\<lambda>xs zero. Inr 1), groupby_empty_raises = False\<rparr>"


text \<open>A frame of two stacked dots as \<^verbatim>\<open>draw_group\<close> receives it; an identity coordinate
  system; axes of 6 by 4 inches; a colour function that keeps the colour names.\<close>

definition dot_row :: "real \<Rightarrow> real \<Rightarrow> real \<Rightarrow> row" where
  "dot_row xv sp bw = put ''x'' xv (put ''y'' 0 (put ''stackpos'' sp (put ''binwidth'' bw (put ''alpha'' 1 blank_row))))"

definition example_dots :: frame where
  "example_dots =
     \<lparr>columns = [''x'', ''y'', ''stackpos'', ''binwidth'', ''alpha'', ''fill'', ''color''],
      rows = [dot_row 1 (1 / 2) 2, dot_row 1 (3 / 2) 5]\<rparr>"

definition example_coord :: "unit coord" where
  "example_coord = \<lparr>coord_transform = (\<lambda>df pp. Inr (df, df)), coord_range = (\<lambda>pp. \<lparr>range_x = (0, 4), range_y = (0, 8)\<rparr>)\<rparr>"

definition example_axes :: "(string list) axes" where
  "example_axes = \<lparr>window_width = 6, window_height = 4, collections = []\<rparr>"

definition example_to_rgba :: "string list \<Rightarrow> series \<Rightarrow> pyerr + string list" where
  "example_to_rgba colours alphas = Inr colours"

definition example_dparams :: "string \<Rightarrow> dparams" where
  "example_dparams axis = \<lparr>dotsize = 1, stackratio = 1, binaxis = axis, raster = False\<rparr>"

text \<open>For \<^verbatim>\<open>geom_pointrange\<close>: one row of size \<open>1/2\<close>, and two drawers that leave the
  frame they are handed as it is and record on the axes what they drew.\<close>

definition example_range :: frame where
  "example_range = \<lparr>columns = [''x'', ''y'', ''ymin'', ''ymax'', ''size''], rows = [put ''size'' (1 / 2) blank_row]\<rparr>"

definition example_geoms :: "(unit, unit, (string \<times> series) list, pparams) geoms" where
  "example_geoms =
     \<lparr>linerange_draw_group = (\<lambda>df pp co ax ps. Inr (df, ax @ [(''linerange'', map (\<lambda>r. num r ''size'') (rows df))])),
      point_draw_group = (\<lambda>df pp co ax ps. Inr (df, ax @ [(''point'', map (\<lambda>r. num r ''size'') (rows df))])),
      point_default_stroke = 1 / 2\<rparr>"

section \<open>Basic facts about frames\<close>

lemmas example_defs = example_data_def example_utils_def example_geom_def bin_row_def blank_row_def

lemmas frame_defs = col_def col_obj_def put_def add_col_def set_col_rowwise_def set_col_scalar_def set_col_def iloc_def

lemmas setup_defs = setup_data_def issue_warnings_def warn_def ensure_width_def choose_stacking_def fill_idx_def
  fill_bins_def py_int_def py_range_def groupvars_def func_def func_y_def binwidth0_def bounding_boxes_def stack_dots_def
  groupby_apply_def group_frames_def group_key_def pd_concat_def enumerate_eq_zip upt_rec Let_def

lemma rows_set_col_rowwise: "rows (set_col_rowwise df c f) = map (\<lambda>r. put c (f r) r) (rows df)"
  by (simp add: set_col_rowwise_def)

lemma rows_set_col_scalar: "rows (set_col_scalar df c v) = map (put c v) (rows df)"
  by (simp add: set_col_scalar_def set_col_rowwise_def)



lemma num_put: "num (put c v r) c' = (if c' = c then v else num r c')"
  by (simp add: put_def)

section \<open>\<^verbatim>\<open>setup_data\<close>: bounding boxes, warnings, state, unbound names\<close>

lemma stackaxis_table:
  "choose_stacking sd = Some s \<Longrightarrow>
     sd \<in> {None, Some ''up'', Some ''down'', Some ''center'', Some ''centerwhole''} \<and>
     (stackaxismin s, stackaxismax s) =
       (if sd = None \<or> sd = Some ''up'' then (0, 1)
        else if sd = Some ''down'' then (- 1, 0) else (- (1 / 2), 1 / 2))"
  by (auto simp add: choose_stacking_def split: if_splits)

lemma bounding_boxes_x:
  assumes "bounding_boxes U st ''x'' d = Inr out"
  shows "\<exists>s. st = Some s \<and>
           rows out = map (\<lambda>r. put ''y'' 0 (put ''ymax'' (stackaxismax s) (put ''ymin'' (stackaxismin s)
                         (put ''xmax'' (num r ''x'' + num r ''binwidth'' / 2)
                           (put ''xmin'' (num r ''x'' - num r ''binwidth'' / 2) r))))) (rows d)"
  using assms
  by (auto simp add: bounding_boxes_def Let_def rows_set_col_rowwise rows_set_col_scalar num_put
        split: if_splits option.splits)

lemma setup_data_result:
  assumes "result (setup_data U self data) = Inr out"
  shows "\<exists>d1 stacked. ensure_width U (stat_params self) data = Inr d1 \<and>
            caller_data (setup_data U self data) = d1 \<and>
            stack_dots U (params self) (stat_params self) d1 = Inr stacked \<and>
            bounding_boxes U (choose_stacking (gp_stackdir (params self))) (sp_binaxis (stat_params self)) stacked = Inr out"
  using assms
  by (auto simp add: setup_data_def Let_def split: sum.splits)

text \<open>
  C9, as the code has it.  When the bin axis is \<^verbatim>\<open>x\<close> and \<^verbatim>\<open>setup_data\<close>
  returns a frame, the \<^verbatim>\<open>stackdir\<close> is one of the five recognised values and every
  row of the frame has \<open>xmin\<close> computed as \<open>x - binwidth/2\<close> and \<open>xmax\<close> as
  \<open>x + binwidth/2\<close>, \<open>y = 0\<close>, and \<open>ymin\<close>, \<open>ymax\<close> equal to the bounds of the
  stack axis for that \<^verbatim>\<open>stackdir\<close>: 0 and 1 for up, -1 and 0 for down, -1/2 and
  1/2 for center and centerwhole.  Nothing is said of \<open>xmax - xmin\<close>: the two cells
  are rounded separately.
\<close>

theorem setup_data_bounding_box_x:
  assumes "sp_binaxis (stat_params self) = ''x''"
    and "result (setup_data U self data) = Inr out"
  shows "gp_stackdir (params self) \<in> {None, Some ''up'', Some ''down'', Some ''center'', Some ''centerwhole''} \<and>
         (\<forall>r \<in> set (rows out).
            num r ''xmin'' = num r ''x'' - num r ''binwidth'' / 2 \<and>
            num r ''xmax'' = num r ''x'' + num r ''binwidth'' / 2 \<and>
            num r ''y'' = 0 \<and>
            (num r ''ymin'', num r ''ymax'') =
              (if gp_stackdir (params self) = None \<or> gp_stackdir (params self) = Some ''up'' then (0, 1)
               else if gp_stackdir (params self) = Some ''down'' then (- 1, 0) else (- (1 / 2), 1 / 2)))"
proof -
  from setup_data_result[OF assms(2)] obtain d1 stacked where
    bb: "bounding_boxes U (choose_stacking (gp_stackdir (params self))) ''x'' stacked = Inr out"
    using assms(1) by auto
  from bounding_boxes_x[OF bb] obtain s where
    s: "choose_stacking (gp_stackdir (params self)) = Some s"
    and ro: "rows out = map (\<lambda>r. put ''y'' 0 (put ''ymax'' (stackaxismax s) (put ''ymin'' (stackaxismin s)
                         (put ''xmax'' (num r ''x'' + num r ''binwidth'' / 2)
                           (put ''xmin'' (num r ''x'' - num r ''binwidth'' / 2) r))))) (rows stacked)"
    by blast
  note t = stackaxis_table[OF s]
  have "\<forall>r \<in> set (rows out).
            num r ''xmin'' = num r ''x'' - num r ''binwidth'' / 2 \<and>
            num r ''xmax'' = num r ''x'' + num r ''binwidth'' / 2 \<and>
            num r ''y'' = 0 \<and>
            (num r ''ymin'', num r ''ymax'') = (stackaxismin s, stackaxismax s)"
    by (auto simp add: ro num_put)
  with t show ?thesis by simp
qed

lemma example_x_runs:
  "result (setup_data example_utils (example_geom None False ''x'') example_data) =
     Inr (projr (result (setup_data example_utils (example_geom None False ''x'') example_data)))"
  by (simp add: example_defs frame_defs setup_defs)

theorem setup_data_bounding_box_x_witness:
  "sp_binaxis (stat_params (example_geom None False ''x'')) = ''x'' \<and>
   result (setup_data example_utils (example_geom None False ''x'') example_data) =
     Inr (projr (result (setup_data example_utils (example_geom None False ''x'') example_data))) \<and>
   length (rows (projr (result (setup_data example_utils (example_geom None False ''x'') example_data)))) = 3 \<and>
   list_all (\<lambda>r. num r ''xmin'' = num r ''x'' - num r ''binwidth'' / 2 \<and>
                 num r ''xmax'' = num r ''x'' + num r ''binwidth'' / 2 \<and>
                 num r ''y'' = 0 \<and> num r ''ymin'' = 0 \<and> num r ''ymax'' = 1)
     (rows (projr (result (setup_data example_utils (example_geom None False ''x'') example_data))))"
proof -
  have a: "sp_binaxis (stat_params (example_geom None False ''x'')) = ''x''"
    by (simp add: example_geom_def)
  have c: "length (rows (projr (result (setup_data example_utils (example_geom None False ''x'') example_data)))) = 3"
    by (simp add: example_defs frame_defs setup_defs)
  have d: "gp_stackdir (params (example_geom None False ''x'')) = None"
    by (simp add: example_geom_def)
  from setup_data_bounding_box_x[OF a example_x_runs] a example_x_runs c d show ?thesis
    by (simp add: list_all_iff)
qed

lemma float64_in_binade:
  assumes "2 powr of_int e \<le> \<bar>r\<bar>" and "\<bar>r\<bar> < 2 powr of_int (e + 1)"
  shows "float64 r = of_int (round_half_even (r / 2 powr (of_int e - 52))) * 2 powr (of_int e - 52)"
proof -
  have pos: "0 < \<bar>r\<bar>" using assms(1) by (smt (verit) powr_gt_zero)
  then have "\<lfloor>log 2 \<bar>r\<bar>\<rfloor> = e"
    using assms by (subst floor_log_eq_powr_iff) auto
  moreover have "r \<noteq> 0" using pos by auto
  ultimately show ?thesis by (simp add: float64_def float64_ulp_def)
qed

lemma float64_below_one:
  assumes "1 / 2 ^ k \<le> \<bar>r\<bar>" and "\<bar>r\<bar> < 2 / 2 ^ k"
  shows "float64 r = of_int (round_half_even (r * 2 ^ (k + 52))) / 2 ^ (k + 52)"
proof -
  have a: "(2::real) powr of_int (- int k) = 1 / 2 ^ k"
    by (simp add: powr_minus powr_realpow divide_inverse)
  have b: "(2::real) powr of_int (- int k + 1) = 2 / 2 ^ k"
    by (simp add: powr_diff powr_realpow)
  have c: "(2::real) powr (of_int (- int k) - 52) = 1 / 2 ^ (k + 52)"
  proof -
    have "(of_int (- int k) - 52 :: real) = - real (k + 52)" by simp
    then show ?thesis by (simp only: powr_minus powr_realpow) (simp add: divide_inverse)
  qed
  from float64_in_binade[of "- int k" r] assms a b
  have "float64 r = of_int (round_half_even (r / 2 powr (of_int (- int k) - 52))) * 2 powr (of_int (- int k) - 52)"
    by simp
  then show ?thesis by (simp only: c) simp
qed

lemma float64_three_tenths: "float64 (3 / 10) = 5404319552844595 / 2 ^ 54"
  using float64_below_one[of 2 "3 / 10"] by (simp add: round_half_even_def)

lemma float64_one_tenth: "float64 (1 / 10) = 3602879701896397 / 2 ^ 55"
  using float64_below_one[of 4 "1 / 10"] by (simp add: round_half_even_def)

lemma float64_half_binwidth: "float64 (3602879701896397 / 2 ^ 55 / 2) = 3602879701896397 / 2 ^ 56"
  using float64_below_one[of 5 "3602879701896397 / 2 ^ 55 / 2"] by (simp add: round_half_even_def)

lemma float64_xmin_example: "float64 (5404319552844595 / 2 ^ 54 - 3602879701896397 / 2 ^ 56) = 1 / 4"
  using float64_below_one[of 3 "5404319552844595 / 2 ^ 54 - 3602879701896397 / 2 ^ 56"]
  by (simp add: round_half_even_def)

lemma float64_xmax_example: "float64 (5404319552844595 / 2 ^ 54 + 3602879701896397 / 2 ^ 56) = 6305039478318694 / 2 ^ 54"
  using float64_below_one[of 2 "5404319552844595 / 2 ^ 54 + 3602879701896397 / 2 ^ 56"]
  by (simp add: round_half_even_def)

lemma float64_difference_example: "float64 (6305039478318694 / 2 ^ 54 - 1 / 4) = 7205759403792792 / 2 ^ 56"
  using float64_below_one[of 4 "6305039478318694 / 2 ^ 54 - 1 / 4"]
  by (simp add: round_half_even_def)

text \<open>
  C9 as stated fails on ordinary inputs, because \<open>xmin\<close> and \<open>xmax\<close> are rounded
  separately: for \<^verbatim>\<open>x = 0.3\<close> and \<^verbatim>\<open>binwidth = 0.1\<close> lines 132--133 give
  \<open>xmin = 0.25\<close> and \<open>xmax = 6305039478318694 / 2^54\<close>, and \<open>xmax - xmin\<close> in
  \<^verbatim>\<open>float64\<close> is \<open>7205759403792792 / 2^56\<close> (printed
  \<^verbatim>\<open>0.09999999999999998\<close>), while \<^verbatim>\<open>binwidth\<close> is \<open>7205759403792794 / 2^56\<close>.
\<close>

theorem bounding_box_x_float64_difference:
  "fst (bounding_box_x_float64 (float64 (3 / 10)) (float64 (1 / 10))) = 1 / 4 \<and>
   snd (bounding_box_x_float64 (float64 (3 / 10)) (float64 (1 / 10))) = 6305039478318694 / 2 ^ 54 \<and>
   float64 (snd (bounding_box_x_float64 (float64 (3 / 10)) (float64 (1 / 10))) -
            fst (bounding_box_x_float64 (float64 (3 / 10)) (float64 (1 / 10)))) = 7205759403792792 / 2 ^ 56 \<and>
   float64 (1 / 10) = 7205759403792794 / 2 ^ 56 \<and>
   float64 (snd (bounding_box_x_float64 (float64 (3 / 10)) (float64 (1 / 10))) -
            fst (bounding_box_x_float64 (float64 (3 / 10)) (float64 (1 / 10)))) \<noteq> float64 (1 / 10)"
proof -
  have a: "fst (bounding_box_x_float64 (float64 (3 / 10)) (float64 (1 / 10))) = 1 / 4"
    by (simp only: bounding_box_x_float64_def fst_conv float64_three_tenths float64_one_tenth float64_half_binwidth float64_xmin_example)
  have b: "snd (bounding_box_x_float64 (float64 (3 / 10)) (float64 (1 / 10))) = 6305039478318694 / 2 ^ 54"
    by (simp only: bounding_box_x_float64_def snd_conv float64_three_tenths float64_one_tenth float64_half_binwidth float64_xmax_example)
  have c: "float64 (1 / 10) = 7205759403792794 / 2 ^ 56"
    by (simp only: float64_one_tenth) simp
  have d: "float64 (snd (bounding_box_x_float64 (float64 (3 / 10)) (float64 (1 / 10))) -
            fst (bounding_box_x_float64 (float64 (3 / 10)) (float64 (1 / 10)))) = 7205759403792792 / 2 ^ 56"
    by (simp only: a b float64_difference_example)
  have e: "float64 (snd (bounding_box_x_float64 (float64 (3 / 10)) (float64 (1 / 10))) -
            fst (bounding_box_x_float64 (float64 (3 / 10)) (float64 (1 / 10)))) \<noteq> float64 (1 / 10)"
    by (subst d) (simp add: c)
  from a b c d e show ?thesis by (intro conjI)
qed

lemma ensure_width_params:
  "ensure_width U (sp\<lparr>sp_method := m, sp_binpositions := b\<rparr>) data = ensure_width U sp data"
  by (simp add: ensure_width_def)

lemma stack_dots_params:
  "stack_dots U (gp\<lparr>gp_position := p\<rparr>) (sp\<lparr>sp_method := m, sp_binpositions := b\<rparr>) data = stack_dots U gp sp data"
  by (simp add: stack_dots_def groupvars_def cong: sum.case_cong)

lemma warnings_setup_data: "warnings (setup_data U self data) = issue_warnings (params self) (stat_params self) []"
  by (simp add: setup_data_def Let_def split: sum.splits)

text \<open>
  C4.  \<^verbatim>\<open>setup_data\<close> issues the first warning exactly when \<^verbatim>\<open>position\<close> is
  \<^verbatim>\<open>'stack'\<close> and the second exactly when \<^verbatim>\<open>stackgroups\<close> is true, the method is
  \<^verbatim>\<open>'dotdensity'\<close> and \<^verbatim>\<open>binpositions\<close> is \<^verbatim>\<open>'bygroup'\<close>, in that order and nothing
  else.  A warning is not an exception: the returned frame (or the exception raised
  later) and the caller's frame are the same for every value of \<^verbatim>\<open>position\<close>,
  \<^verbatim>\<open>method\<close> and \<^verbatim>\<open>binpositions\<close>, so they are the same as in a call that did not
  warn.
\<close>

theorem setup_data_warnings:
  "warnings (setup_data U self data) =
      (if gp_position (params self) = ''stack'' then [position_stack_msg] else []) @
      (if gp_stackgroups (params self) \<and> sp_method (stat_params self) = ''dotdensity'' \<and>
          sp_binpositions (stat_params self) = ''bygroup'' then [stackgroups_msg] else []) \<and>
   result (setup_data U (self\<lparr>params := (params self)\<lparr>gp_position := p\<rparr>,
                               stat_params := (stat_params self)\<lparr>sp_method := m, sp_binpositions := b\<rparr>\<rparr>) data) =
      result (setup_data U self data) \<and>
   caller_data (setup_data U (self\<lparr>params := (params self)\<lparr>gp_position := p\<rparr>,
                               stat_params := (stat_params self)\<lparr>sp_method := m, sp_binpositions := b\<rparr>\<rparr>) data) =
      caller_data (setup_data U self data)"
proof (intro conjI)
  show "warnings (setup_data U self data) =
      (if gp_position (params self) = ''stack'' then [position_stack_msg] else []) @
      (if gp_stackgroups (params self) \<and> sp_method (stat_params self) = ''dotdensity'' \<and>
          sp_binpositions (stat_params self) = ''bygroup'' then [stackgroups_msg] else [])"
    by (simp add: warnings_setup_data issue_warnings_def warn_def Let_def)
next
  show "result (setup_data U (self\<lparr>params := (params self)\<lparr>gp_position := p\<rparr>,
                               stat_params := (stat_params self)\<lparr>sp_method := m, sp_binpositions := b\<rparr>\<rparr>) data) =
      result (setup_data U self data)"
    by (simp add: setup_data_def Let_def ensure_width_params stack_dots_params split: sum.splits)
next
  show "caller_data (setup_data U (self\<lparr>params := (params self)\<lparr>gp_position := p\<rparr>,
                               stat_params := (stat_params self)\<lparr>sp_method := m, sp_binpositions := b\<rparr>\<rparr>) data) =
      caller_data (setup_data U self data)"
    by (simp add: setup_data_def Let_def ensure_width_params split: sum.splits)
qed

theorem setup_data_warnings_witness:
  "warnings (setup_data example_utils (example_geom None True ''x'') example_data) =
     [position_stack_msg, stackgroups_msg] \<and>
   result (setup_data example_utils (example_geom None True ''x'') example_data) =
   result (setup_data example_utils
     ((example_geom None True ''x'')
        \<lparr>params := (params (example_geom None True ''x''))\<lparr>gp_position := ''identity''\<rparr>,
         stat_params := (stat_params (example_geom None True ''x''))\<lparr>sp_method := ''histodot'', sp_binpositions := ''all''\<rparr>\<rparr>)
     example_data) \<and>
   warnings (setup_data example_utils
     ((example_geom None True ''x'')
        \<lparr>params := (params (example_geom None True ''x''))\<lparr>gp_position := ''identity''\<rparr>,
         stat_params := (stat_params (example_geom None True ''x''))\<lparr>sp_method := ''histodot'', sp_binpositions := ''all''\<rparr>\<rparr>)
     example_data) = []"
  using setup_data_warnings[of example_utils "example_geom None True ''x''" example_data "''identity''" "''histodot''" "''all''"]
    setup_data_warnings[of example_utils
      "(example_geom None True ''x'')
        \<lparr>params := (params (example_geom None True ''x''))\<lparr>gp_position := ''identity''\<rparr>,
         stat_params := (stat_params (example_geom None True ''x''))\<lparr>sp_method := ''histodot'', sp_binpositions := ''all''\<rparr>\<rparr>"
      example_data "''identity''" "''histodot''" "''all''"]
  by (simp add: example_geom_def)






lemma group_frames_nonempty: "rows df \<noteq> [] \<Longrightarrow> group_frames df cols \<noteq> []"
proof -
  assume "rows df \<noteq> []"
  then have "set (sort (remdups (map (group_key cols) (rows df)))) \<noteq> {}" by simp
  then have "sort (remdups (map (group_key cols) (rows df))) \<noteq> []" by (metis list.set(1))
  then show ?thesis by (simp add: group_frames_def)
qed

lemma func_unbound: "isl (func None df)"
  by (simp add: func_def set_col_def split: sum.splits)

lemma groupby_apply_unbound:
  "rows df \<noteq> [] \<or> groupby_empty_raises U \<Longrightarrow> isl (groupby_apply U df cols (func None))"
proof (cases "rows df = []")
  case True
  assume "rows df \<noteq> [] \<or> groupby_empty_raises U"
  with True show ?thesis by (simp add: groupby_apply_def)
next
  case False
  then obtain g gs where "group_frames df cols = g # gs"
    using group_frames_nonempty[of df cols] by (cases "group_frames df cols") auto
  moreover obtain e where "func None g = Inl e"
    using func_unbound[of g] by (cases "func None g") auto
  ultimately show ?thesis using False by (simp add: groupby_apply_def)
qed

lemma bounding_boxes_unbound:
  "bx \<in> {''x'', ''y''} \<Longrightarrow> isl (bounding_boxes U None bx d)"
  by (auto simp add: bounding_boxes_def Let_def split: sum.splits)

lemma fill_idx_nonempty:
  assumes "\<exists>c \<in> set counts. 1 \<le> c"
  shows "fill_idx counts \<noteq> []"
proof -
  from assms obtain c where c: "c \<in> set counts" "1 \<le> c" by blast
  then obtain i where i: "i < length counts" "counts ! i = c" by (auto simp add: in_set_conv_nth)
  have "(i, c) \<in> set (enumerate 0 counts)" using i by (auto simp add: in_set_enumerate_eq)
  moreover have "py_range (py_int c) \<noteq> []" using c(2) by (simp add: py_range_def py_int_def)
  ultimately show ?thesis by (force simp add: fill_idx_def)
qed

lemma fill_bins_nonempty:
  assumes "\<exists>r \<in> set (rows data). 1 \<le> num r ''count''" and "fill_bins data = Inr filled"
  shows "rows filled \<noteq> []"
proof -
  have c: "col data ''count'' = Inr (map (\<lambda>r. num r ''count'') (rows data))"
    using assms(2) by (auto simp add: fill_bins_def col_def split: sum.splits if_splits)
  have "fill_idx (map (\<lambda>r. num r ''count'') (rows data)) \<noteq> []"
    using assms(1) by (intro fill_idx_nonempty) auto
  then show ?thesis using assms(2) c by (auto simp add: fill_bins_def iloc_def split: if_splits)
qed

lemma rows_ensure_width:
  "ensure_width U sp data = Inr d1 \<Longrightarrow> map (\<lambda>r. num r ''count'') (rows d1) = map (\<lambda>r. num r ''count'') (rows data)"
  by (auto simp add: ensure_width_def rows_set_col_scalar num_put split: if_splits sum.splits)

text \<open>
  C8, as the code has it.  For a \<^verbatim>\<open>stackdir\<close> outside \<^verbatim>\<open>None\<close>, \<^verbatim>\<open>'up'\<close>, \<^verbatim>\<open>'down'\<close>,
  \<^verbatim>\<open>'center'\<close>, \<^verbatim>\<open>'centerwhole'\<close> the stacking function and the bounds of the stack
  axis are never bound and \<^verbatim>\<open>setup_data\<close> raises instead of returning: for every data
  frame when the bin axis is \<^verbatim>\<open>'x'\<close> or \<^verbatim>\<open>'y'\<close> (the bounds are then read), and for
  any bin axis when some bin holds a dot (the stacking function is then called) or when
  \<^verbatim>\<open>groupby_apply\<close> raises on a frame without rows.  In the one case left, another
  bin axis and no dot at all, neither name is used.
\<close>

theorem setup_data_unbound_stackdir:
  assumes "gp_stackdir (params self) \<notin> {None, Some ''up'', Some ''down'', Some ''center'', Some ''centerwhole''}"
    and "sp_binaxis (stat_params self) \<in> {''x'', ''y''} \<or> groupby_empty_raises U \<or>
         (\<exists>r \<in> set (rows data). 1 \<le> num r ''count'')"
  shows "isl (result (setup_data U self data))"
proof (rule ccontr)
  assume "\<not> isl (result (setup_data U self data))"
  then obtain out where out: "result (setup_data U self data) = Inr out"
    by (cases "result (setup_data U self data)") auto
  have st: "choose_stacking (gp_stackdir (params self)) = None"
    using assms(1) by (simp add: choose_stacking_def)
  from setup_data_result[OF out] obtain d1 stacked where
    ew: "ensure_width U (stat_params self) data = Inr d1" and
    sd: "stack_dots U (params self) (stat_params self) d1 = Inr stacked" and
    bb: "bounding_boxes U None (sp_binaxis (stat_params self)) stacked = Inr out"
    using st by auto
  from sd obtain filled where
    fb: "fill_bins d1 = Inr filled" and
    ga: "groupby_apply U filled (groupvars (params self) (stat_params self)) (func None) = Inr stacked"
    using st by (auto simp add: stack_dots_def split: sum.splits)
  have nb: "sp_binaxis (stat_params self) \<notin> {''x'', ''y''}"
    using bounding_boxes_unbound[of "sp_binaxis (stat_params self)" U stacked] bb by auto
  have ne: "\<not> (rows filled \<noteq> [] \<or> groupby_empty_raises U)"
    using groupby_apply_unbound[of filled U "groupvars (params self) (stat_params self)"] ga by auto
  have "\<not> (\<exists>r \<in> set (rows data). 1 \<le> num r ''count'')"
  proof
    assume "\<exists>r \<in> set (rows data). 1 \<le> num r ''count''"
    then have "\<exists>c \<in> set (map (\<lambda>r. num r ''count'') (rows data)). 1 \<le> c" by auto
    then have "\<exists>c \<in> set (map (\<lambda>r. num r ''count'') (rows d1)). 1 \<le> c"
      using rows_ensure_width[OF ew] by simp
    then have "\<exists>r \<in> set (rows d1). 1 \<le> num r ''count''" by auto
    from fill_bins_nonempty[OF this fb] ne show False by simp
  qed
  with nb ne assms(2) show False by simp
qed

theorem setup_data_unbound_stackdir_witness:
  "gp_stackdir (params (example_geom (Some ''sideways'') False ''x'')) \<notin>
      {None, Some ''up'', Some ''down'', Some ''center'', Some ''centerwhole''} \<and>
   sp_binaxis (stat_params (example_geom (Some ''sideways'') False ''x'')) = ''x'' \<and>
   isl (result (setup_data example_utils (example_geom (Some ''sideways'') False ''x'') example_data)) \<and>
   result (setup_data example_utils (example_geom (Some ''sideways'') False ''x'') example_data) = Inl NameError"
proof -
  have a: "gp_stackdir (params (example_geom (Some ''sideways'') False ''x'')) \<notin>
      {None, Some ''up'', Some ''down'', Some ''center'', Some ''centerwhole''}"
    by (simp add: example_geom_def)
  have b: "sp_binaxis (stat_params (example_geom (Some ''sideways'') False ''x'')) = ''x''"
    by (simp add: example_geom_def)
  have c: "result (setup_data example_utils (example_geom (Some ''sideways'') False ''x'') example_data) = Inl NameError"
    by (simp add: example_defs frame_defs setup_defs)
  from setup_data_unbound_stackdir[OF a, of example_utils example_data] a b c show ?thesis by simp
qed

text \<open>
  C8 as stated fails: with \<^verbatim>\<open>stackdir\<close> \<^verbatim>\<open>'sideways'\<close>, bin axis \<^verbatim>\<open>'z'\<close> (a
  column of the frame), every count 0 and a \<^verbatim>\<open>groupby_apply\<close> that returns a copy of a frame without rows, no
  group is formed, neither bounding-box branch is taken, and \<^verbatim>\<open>setup_data\<close> returns
  the frame without rows.
\<close>

theorem setup_data_unbound_stackdir_returns:
  "gp_stackdir (params (example_geom (Some ''sideways'') False ''z'')) \<notin>
      {None, Some ''up'', Some ''down'', Some ''center'', Some ''centerwhole''} \<and>
   result (setup_data example_utils_copy (example_geom (Some ''sideways'') False ''z'') example_no_dots) =
     Inr \<lparr>columns = [''x'', ''y'', ''z'', ''count'', ''binwidth'', ''PANEL'', ''group'', ''alpha'', ''fill'', ''color'', ''width''],
          rows = []\<rparr>"
  by (simp add: example_no_dots_def example_utils_copy_def example_defs frame_defs setup_defs)

section \<open>\<^verbatim>\<open>geom_dotplot.draw_group\<close>: the ellipses\<close>

lemma np_div_Inr: "np_div a b = Inr q \<Longrightarrow> b \<noteq> 0 \<and> q = a / b"
  by (auto simp add: np_div_def split: if_splits)


lemma zip_map2_right:
  "zip (map f rs) (map2 g (map h rs) (map k rs)) = map (\<lambda>r. (f r, g (h r) (k r))) rs"
  by (induction rs) auto

lemma zip_map2_left:
  "zip (map2 g (map h rs) (map k rs)) (map f rs) = map (\<lambda>r. (g (h r) (k r), f r)) rs"
  by (induction rs) auto

lemma loc0_Inr: "loc0 d c = Inr v \<Longrightarrow> rows d \<noteq> [] \<and> v = num (hd (rows d)) c"
  by (auto simp add: loc0_def split: if_splits list.splits)

lemma dot_geometry_x:
  assumes "dot_geometry d ps factor = Inr (w, h, xpos, ypos)" and "binaxis ps = ''x''"
  shows "rows d \<noteq> [] \<and> w = num (hd (rows d)) ''binwidth'' * dotsize ps \<and> h = w * factor \<and>
         zip xpos ypos = map (\<lambda>r. (num r ''x'', num r ''y'' + h * (num r ''stackpos'' * stackratio ps))) (rows d)"
  using assms
  by (auto simp add: dot_geometry_def Let_def col_def zip_map2_right map_map comp_def
        dest!: loc0_Inr split: sum.splits if_splits)

lemma dot_geometry_y:
  assumes "dot_geometry d ps factor = Inr (w, h, xpos, ypos)" and "binaxis ps = ''y''"
  shows "rows d \<noteq> [] \<and> factor \<noteq> 0 \<and> h = num (hd (rows d)) ''binwidth'' * dotsize ps \<and> w = h / factor \<and>
         zip xpos ypos = map (\<lambda>r. (num r ''x'' + w * (num r ''stackpos'' * stackratio ps), num r ''y'')) (rows d)"
  using assms
  by (auto simp add: dot_geometry_def Let_def col_def zip_map2_left map_map comp_def
        dest!: loc0_Inr np_div_Inr split: sum.splits if_splits)

lemma dot_geometry_binaxis:
  "dot_geometry d ps factor = Inr g \<Longrightarrow> binaxis ps = ''x'' \<or> binaxis ps = ''y''"
  by (auto simp add: dot_geometry_def Let_def split: sum.splits if_splits)

lemma dotplot_draw_group_result:
  assumes "dotplot_draw_group to_rgba data pp coord ax ps = Inr (caller, ax')"
  shows "\<exists>d factor w h xpos ypos fill color.
           coord_transform coord data pp = Inr (caller, d) \<and>
           aspect_factor ax (coord_range coord pp) = Inr factor \<and>
           dot_geometry d ps factor = Inr (w, h, xpos, ypos) \<and>
           ax' = ax\<lparr>collections := collections ax @
                  [\<lparr>patches = map (\<lambda>p. \<lparr>xy = p, width = w, height = h\<rparr>) (zip xpos ypos),
                    edgecolors = color, facecolors = fill, rasterized = raster ps\<rparr>]\<rparr>"
  using assms
  by (auto simp add: dotplot_draw_group_def split: sum.splits prod.splits)


lemma example_draw_x:
  "dotplot_draw_group example_to_rgba example_dots () example_coord example_axes (example_dparams ''x'') =
     Inr (example_dots,
          example_axes\<lparr>collections :=
            [\<lparr>patches = [\<lparr>xy = (1, 3), width = 2, height = 6\<rparr>, \<lparr>xy = (1, 9), width = 2, height = 6\<rparr>],
              edgecolors = [''black'', ''black''], facecolors = [''black'', ''black''], rasterized = False\<rparr>]\<rparr>)"
  by (simp add: dotplot_draw_group_def example_dots_def example_coord_def example_axes_def example_to_rgba_def
        example_dparams_def dot_row_def blank_row_def frame_defs aspect_factor_def np_div_def np_ptp_def
        dot_geometry_def loc0_def Let_def)


text \<open>
  C10.  When \<^verbatim>\<open>draw_group\<close> returns, all ellipses of the collection have one and the
  same width and one and the same height, and the diameter comes from the first row of
  the transformed frame alone: \<open>binwidth\<close> of the first row times \<open>dotsize\<close> is the
  width for \<^verbatim>\<open>binaxis\<close> \<^verbatim>\<open>'x'\<close> and the height for \<^verbatim>\<open>'y'\<close>, whatever the
  \<^verbatim>\<open>binwidth\<close> of the other rows.
\<close>

theorem dotplot_draw_group_first_row_size:
  assumes "dotplot_draw_group to_rgba data pp coord ax ps = Inr (caller, ax')"
  shows "\<exists>d coll w h. coord_transform coord data pp = Inr (caller, d) \<and> rows d \<noteq> [] \<and>
           collections ax' = collections ax @ [coll] \<and>
           length (patches coll) = length (rows d) \<and>
           (\<forall>e \<in> set (patches coll). width e = w \<and> height e = h) \<and>
           (binaxis ps = ''x'' \<longrightarrow> w = num (hd (rows d)) ''binwidth'' * dotsize ps) \<and>
           (binaxis ps = ''y'' \<longrightarrow> h = num (hd (rows d)) ''binwidth'' * dotsize ps)"
proof -
  from dotplot_draw_group_result[OF assms] obtain d factor w h xpos ypos fill color where
    tr: "coord_transform coord data pp = Inr (caller, d)" and
    dg: "dot_geometry d ps factor = Inr (w, h, xpos, ypos)" and
    ax': "ax' = ax\<lparr>collections := collections ax @
                  [\<lparr>patches = map (\<lambda>p. \<lparr>xy = p, width = w, height = h\<rparr>) (zip xpos ypos),
                    edgecolors = color, facecolors = fill, rasterized = raster ps\<rparr>]\<rparr>"
    by blast
  consider (x) "binaxis ps = ''x''" | (y) "binaxis ps = ''y''" "binaxis ps \<noteq> ''x''"
    using dot_geometry_binaxis[OF dg] by auto
  then show ?thesis
  proof cases
    case x
    from dot_geometry_x[OF dg x] show ?thesis
      using tr x ax' by auto
  next
    case y
    from dot_geometry_y[OF dg y(1)] show ?thesis
      using tr y ax' by auto
  qed
qed

lemma example_draw_y:
  "dotplot_draw_group example_to_rgba example_dots () example_coord example_axes (example_dparams ''y'') =
     Inr (example_dots,
          example_axes\<lparr>collections :=
            [\<lparr>patches = [\<lparr>xy = (4 / 3, 0), width = 2 / 3, height = 2\<rparr>, \<lparr>xy = (2, 0), width = 2 / 3, height = 2\<rparr>],
              edgecolors = [''black'', ''black''], facecolors = [''black'', ''black''], rasterized = False\<rparr>]\<rparr>)"
  by (simp add: dotplot_draw_group_def example_dots_def example_coord_def example_axes_def example_to_rgba_def
        example_dparams_def dot_row_def blank_row_def frame_defs aspect_factor_def np_div_def np_ptp_def
        dot_geometry_def loc0_def Let_def)

theorem dotplot_draw_group_first_row_size_witness:
  "dotplot_draw_group example_to_rgba example_dots () example_coord example_axes (example_dparams ''y'') =
     Inr (example_dots,
          example_axes\<lparr>collections :=
            [\<lparr>patches = [\<lparr>xy = (4 / 3, 0), width = 2 / 3, height = 2\<rparr>, \<lparr>xy = (2, 0), width = 2 / 3, height = 2\<rparr>],
              edgecolors = [''black'', ''black''], facecolors = [''black'', ''black''], rasterized = False\<rparr>]\<rparr>) \<and>
   map (\<lambda>r. num r ''binwidth'') (rows example_dots) = [2, 5] \<and>
   dotsize (example_dparams ''y'') = 1"
proof -
  have "map (\<lambda>r. num r ''binwidth'') (rows example_dots) = [2, 5] \<and> dotsize (example_dparams ''y'') = 1"
    by (simp add: example_dots_def dot_row_def blank_row_def put_def example_dparams_def)
  with dotplot_draw_group_first_row_size[OF example_draw_y] example_draw_y show ?thesis by simp
qed

section \<open>\<^verbatim>\<open>geom_pointrange.draw_group\<close>: composition and the caller's frame\<close>

lemma fattened_eq:
  "''size'' \<in> set (columns data) \<Longrightarrow>
     fattened fat stroke data =
       Inr (set_col_scalar (set_col_rowwise data ''size'' (\<lambda>r. num r ''size'' * fat)) ''stroke'' stroke)"
  by (simp add: fattened_def set_col_scalar_def set_col_rowwise_def add_col_def comp_def)

text \<open>
  C2.  The drawing effects of \<^verbatim>\<open>geom_pointrange.draw_group\<close> (the axes it returns, or
  the exception) are those of the composition: \<^verbatim>\<open>geom_linerange.draw_group\<close> on a
  copy of the data, then \<^verbatim>\<open>geom_point.draw_group\<close> on the data with \<^verbatim>\<open>size\<close>
  multiplied by \<^verbatim>\<open>fatten\<close> and \<^verbatim>\<open>stroke\<close> set to the default stroke of
  \<^verbatim>\<open>geom_point\<close>.
\<close>

theorem pointrange_draw_group_composition:
  "map_sum id snd (pointrange_draw_group G data panel_params coord ax ps) =
     pointrange_composed G data panel_params coord ax ps"
proof (cases "''size'' \<in> set (columns data)")
  case True
  then show ?thesis
    by (simp add: pointrange_draw_group_def pointrange_composed_def drawn_on_copy_def fattened_eq col_def Let_def
          split: sum.splits prod.splits)
next
  case False
  then show ?thesis
    by (simp add: pointrange_draw_group_def pointrange_composed_def drawn_on_copy_def fattened_def col_def
          split: sum.splits prod.splits)
qed

theorem pointrange_draw_group_composition_witness:
  "map_sum id snd (pointrange_draw_group example_geoms example_range () () [] \<lparr>fatten = 4\<rparr>) =
     Inr [(''linerange'', [1 / 2]), (''point'', [2])] \<and>
   pointrange_composed example_geoms example_range () () [] \<lparr>fatten = 4\<rparr> =
     Inr [(''linerange'', [1 / 2]), (''point'', [2])]"
proof -
  have "pointrange_composed example_geoms example_range () () [] \<lparr>fatten = 4\<rparr> =
     Inr [(''linerange'', [1 / 2]), (''point'', [2])]"
    by (simp add: pointrange_composed_def drawn_on_copy_def fattened_def example_geoms_def example_range_def
          blank_row_def put_def)
  with pointrange_draw_group_composition[of example_geoms example_range "()" "()" "[]" "\<lparr>fatten = 4\<rparr>"]
  show ?thesis by simp
qed

text \<open>
  C3, as the code has it.  \<^verbatim>\<open>geom_dotplot.draw_group\<close> makes no assignment on the
  caller's frame: after the call the frame is as \<^verbatim>\<open>coord.transform\<close> left it.
  \<^verbatim>\<open>geom_pointrange.draw_group\<close> hands \<^verbatim>\<open>geom_linerange\<close> a copy, but then assigns
  on the caller's frame itself: the \<^verbatim>\<open>size\<close> of every row is multiplied by
  \<^verbatim>\<open>fatten\<close>, the \<^verbatim>\<open>stroke\<close> column is set to the default stroke, and this frame
  is handed to \<^verbatim>\<open>geom_point\<close>; after the call the caller's frame is what
  \<^verbatim>\<open>geom_point\<close> left of it.
\<close>

theorem draw_group_caller_frame:
  "(dotplot_draw_group to_rgba data pp coord ax ps = Inr (after, ax') \<longrightarrow>
      (\<exists>d. coord_transform coord data pp = Inr (after, d))) \<and>
   (pointrange_draw_group G rdata rpp rco rax rps = Inr (rafter, rax') \<longrightarrow>
      (\<exists>copy_after ax1 handed.
          linerange_draw_group G rdata rpp rco rax rps = Inr (copy_after, ax1) \<and>
          columns handed = add_col ''stroke'' (columns rdata) \<and>
          rows handed = map (\<lambda>r. put ''stroke'' (point_default_stroke G) (put ''size'' (num r ''size'' * fatten rps) r))
                          (rows rdata) \<and>
          point_draw_group G handed rpp rco ax1 rps = Inr (rafter, rax')))"
proof (intro conjI impI)
  assume "dotplot_draw_group to_rgba data pp coord ax ps = Inr (after, ax')"
  from dotplot_draw_group_result[OF this] show "\<exists>d. coord_transform coord data pp = Inr (after, d)" by blast
next
  assume a: "pointrange_draw_group G rdata rpp rco rax rps = Inr (rafter, rax')"
  then obtain copy_after ax1 where l: "linerange_draw_group G rdata rpp rco rax rps = Inr (copy_after, ax1)"
    by (auto simp add: pointrange_draw_group_def split: sum.splits)
  from a l have s: "''size'' \<in> set (columns rdata)"
    by (auto simp add: pointrange_draw_group_def col_def split: sum.splits if_splits)
  let ?h = "set_col_scalar (set_col_rowwise rdata ''size'' (\<lambda>r. num r ''size'' * fatten rps)) ''stroke'' (point_default_stroke G)"
  from a l s have p: "point_draw_group G ?h rpp rco ax1 rps = Inr (rafter, rax')"
    by (simp add: pointrange_draw_group_def col_def Let_def)
  have c: "columns ?h = add_col ''stroke'' (columns rdata)"
    using s by (simp add: set_col_scalar_def set_col_rowwise_def add_col_def)
  have r: "rows ?h = map (\<lambda>r. put ''stroke'' (point_default_stroke G) (put ''size'' (num r ''size'' * fatten rps) r)) (rows rdata)"
    by (simp add: set_col_scalar_def set_col_rowwise_def comp_def)
  from l c r p show "\<exists>copy_after ax1 handed.
          linerange_draw_group G rdata rpp rco rax rps = Inr (copy_after, ax1) \<and>
          columns handed = add_col ''stroke'' (columns rdata) \<and>
          rows handed = map (\<lambda>r. put ''stroke'' (point_default_stroke G) (put ''size'' (num r ''size'' * fatten rps) r))
                          (rows rdata) \<and>
          point_draw_group G handed rpp rco ax1 rps = Inr (rafter, rax')"
    by blast
qed

lemma example_range_drawn:
  "pointrange_draw_group example_geoms example_range () () [] \<lparr>fatten = 4\<rparr> =
     Inr (\<lparr>columns = [''x'', ''y'', ''ymin'', ''ymax'', ''size'', ''stroke''],
           rows = [put ''stroke'' (1 / 2) (put ''size'' 2 blank_row)]\<rparr>,
          [(''linerange'', [1 / 2]), (''point'', [2])])"
  by (simp add: pointrange_draw_group_def example_geoms_def example_range_def blank_row_def frame_defs Let_def)

theorem draw_group_caller_frame_witness:
  "dotplot_draw_group example_to_rgba example_dots () example_coord example_axes (example_dparams ''x'') =
     Inr (example_dots, snd (projr (dotplot_draw_group example_to_rgba example_dots () example_coord example_axes
                                     (example_dparams ''x'')))) \<and>
   coord_transform example_coord example_dots () = Inr (example_dots, example_dots) \<and>
   pointrange_draw_group example_geoms example_range () () [] \<lparr>fatten = 4\<rparr> =
     Inr (\<lparr>columns = [''x'', ''y'', ''ymin'', ''ymax'', ''size'', ''stroke''],
           rows = [put ''stroke'' (1 / 2) (put ''size'' 2 blank_row)]\<rparr>,
          [(''linerange'', [1 / 2]), (''point'', [2])])"
proof -
  have a: "dotplot_draw_group example_to_rgba example_dots () example_coord example_axes (example_dparams ''x'') =
     Inr (example_dots, snd (projr (dotplot_draw_group example_to_rgba example_dots () example_coord example_axes
                                     (example_dparams ''x''))))"
    by (simp add: example_draw_x)
  have b: "coord_transform example_coord example_dots () = Inr (example_dots, example_dots)"
    by (simp add: example_coord_def)
  from draw_group_caller_frame[where to_rgba = example_to_rgba and data = example_dots and pp = "()"
      and coord = example_coord and ax = example_axes and ps = "example_dparams ''x''" and after = example_dots
      and G = example_geoms and rdata = example_range and rpp = "()" and rco = "()" and rax = "[]"
      and rps = "\<lparr>fatten = 4\<rparr>"]
    a b example_range_drawn
  show ?thesis by simp
qed

text \<open>
  C3 as stated fails for \<^verbatim>\<open>geom_pointrange\<close>: with drawers that leave their frame
  alone, a caller's frame whose only row has \<^verbatim>\<open>size\<close> \<open>1/2\<close> comes back from
  \<^verbatim>\<open>draw_group\<close> (\<^verbatim>\<open>fatten\<close> 4) with \<^verbatim>\<open>size\<close> 2 and a new \<^verbatim>\<open>stroke\<close> column.
\<close>

theorem pointrange_draw_group_mutates:
  "num (hd (rows example_range)) ''size'' = 1 / 2 \<and>
   num (hd (rows (fst (projr (pointrange_draw_group example_geoms example_range () () [] \<lparr>fatten = 4\<rparr>))))) ''size'' = 2 \<and>
   columns (fst (projr (pointrange_draw_group example_geoms example_range () () [] \<lparr>fatten = 4\<rparr>))) \<noteq>
     columns example_range \<and>
   fst (projr (pointrange_draw_group example_geoms example_range () () [] \<lparr>fatten = 4\<rparr>)) \<noteq> example_range"
proof -
  have "columns (fst (projr (pointrange_draw_group example_geoms example_range () () [] \<lparr>fatten = 4\<rparr>))) \<noteq>
     columns example_range"
    by (simp add: example_range_drawn) (simp add: example_range_def)
  moreover have "num (hd (rows example_range)) ''size'' = 1 / 2"
    by (simp add: example_range_def put_def)
  moreover have "num (hd (rows (fst (projr (pointrange_draw_group example_geoms example_range () () [] \<lparr>fatten = 4\<rparr>))))) ''size'' = 2"
    by (simp add: example_range_drawn put_def)
  ultimately show ?thesis by auto
qed

section \<open>\<^verbatim>\<open>setup_data\<close>: filling the bins and stacking the dots\<close>

lemma put_put_same: "put c v (put c w r) = put c v r"
  by (simp add: put_def)

lemma group_key_put: "c \<notin> set cols \<Longrightarrow> group_key cols (put c v r) = group_key cols r"
  by (auto simp add: group_key_def num_put)

lemma map_num_map2_put:
  "length rs = length vs \<Longrightarrow> map (\<lambda>r. num r c) (map2 (\<lambda>r v. put c v r) rs vs) = vs"
  by (induction rs vs rule: list_induct2) (auto simp add: num_put)

lemma map2_put_put:
  "length rs = length js \<Longrightarrow>
     map2 (\<lambda>r v. put c2 v r) (map2 (\<lambda>r v. put c1 v r) rs (map f js)) (map g js) =
     map2 (\<lambda>r i. put c2 (g i) (put c1 (f i) r)) rs js"
  by (induction rs js rule: list_induct2) auto

lemma np_max_countidx:
  assumes "1 \<le> n"
  shows "np_max (map (\<lambda>v. v - 1) (map real [1..<Suc n])) = Inr (real n - 1)"
proof -
  let ?vs = "map (\<lambda>i. real i - 1) [1..<Suc n]"
  have ne: "?vs \<noteq> []" using assms by simp
  then obtain v vs where vs: "?vs = v # vs" by (cases ?vs) auto
  have "np_max ?vs = Inr (Max (set ?vs))"
    unfolding vs using Max.set_eq_fold[of v vs] by simp
  moreover have "Max (set ?vs) = real n - 1"
  proof (rule Max_eqI)
    show "finite (set ?vs)" by simp
    show "\<And>y. y \<in> set ?vs \<Longrightarrow> y \<le> real n - 1" by auto
    show "real n - 1 \<in> set ?vs" using assms by auto
  qed
  ultimately show ?thesis by (simp add: comp_def)
qed

lemma stackdots_expected:
  assumes "choose_stacking sd = Some s" and "1 \<le> n"
  shows "stackdots s (map real [1..<Suc n]) = Inr (map (expected_stackpos sd n) [1..<Suc n])"
proof -
  note m = np_max_countidx[OF assms(2)]
  consider (up) "sd = None \<or> sd = Some ''up''" | (down) "sd = Some ''down''"
    | (center) "sd = Some ''center''" | (whole) "sd = Some ''centerwhole''"
    using assms(1) by (auto simp add: choose_stacking_def split: if_splits)
  then show ?thesis
  proof cases
    case up
    with assms(1) have "stackdots s = (\<lambda>a. Inr (map (\<lambda>v. v - 1 / 2) a))"
      by (auto simp add: choose_stacking_def)
    with up show ?thesis by (auto simp add: expected_stackpos_def)
  next
    case down
    with assms(1) have "stackdots s = (\<lambda>a. Inr (map (\<lambda>v. - v + 1 / 2) a))"
      by (auto simp add: choose_stacking_def)
    with down show ?thesis by (auto simp add: expected_stackpos_def)
  next
    case center
    with assms(1) have "stackdots s = (\<lambda>a. case np_max (map (\<lambda>v. v - 1) a) of
                                  Inl e \<Rightarrow> Inl e
                                | Inr m \<Rightarrow> Inr (map (\<lambda>v. v - 1 - m / 2) a))"
      by (auto simp add: choose_stacking_def)
    with center m show ?thesis by (simp add: expected_stackpos_def)
  next
    case whole
    with assms(1) have "stackdots s = (\<lambda>a. case np_max (map (\<lambda>v. v - 1) a) of
                                  Inl e \<Rightarrow> Inl e
                                | Inr m \<Rightarrow> Inr (map (\<lambda>v. v - 1 - of_int \<lfloor>m / 2\<rfloor>) a))"
      by (auto simp add: choose_stacking_def)
    with whole m show ?thesis by (simp add: expected_stackpos_def)
  qed
qed

lemma func_rows:
  assumes "func (choose_stacking sd) df = Inr df'" and "rows df \<noteq> []"
  shows "rows df' = stack_rows sd (rows df)"
proof -
  let ?n = "length (rows df)"
  let ?vals = "map real [1..<Suc ?n]"
  let ?df1 = "df\<lparr>columns := add_col ''countidx'' (columns df),
                  rows := map2 (\<lambda>r v. put ''countidx'' v r) (rows df) ?vals\<rparr>"
  have sc: "set_col df ''countidx'' (map real [1..<length (rows df) + 1]) = Inr ?df1"
    by (simp add: set_col_def del: upt_Suc)
  from assms(1) sc obtain s where s: "choose_stacking sd = Some s"
    by (cases "choose_stacking sd") (auto simp add: func_def)
  have a: "col ?df1 ''countidx'' = Inr ?vals"
  proof -
    have "map (\<lambda>r. num r ''countidx'') (map2 (\<lambda>r v. put ''countidx'' v r) (rows df) ?vals) = ?vals"
      by (rule map_num_map2_put) (simp del: upt_Suc)
    then show ?thesis by (simp add: col_def add_col_def del: upt_Suc)
  qed
  have n: "1 \<le> ?n" using assms(2) by (cases "rows df") auto
  note sp = stackdots_expected[OF s n]
  from assms(1) sc s a sp
  have "set_col ?df1 ''stackpos'' (map (expected_stackpos sd ?n) [1..<Suc ?n]) = Inr df'"
    by (simp add: func_def del: upt_Suc)
  then have "rows df' = map2 (\<lambda>r v. put ''stackpos'' v r) (map2 (\<lambda>r v. put ''countidx'' v r) (rows df) ?vals)
                          (map (expected_stackpos sd ?n) [1..<Suc ?n])"
    by (auto simp add: set_col_def simp del: upt_Suc split: if_splits)
  then show ?thesis
    by (simp add: stack_rows_def map2_put_put del: upt_Suc)
qed

lemma apply_all_Inr: "apply_all f gs = Inr gs' \<Longrightarrow> list_all2 (\<lambda>g g'. f g = Inr g') gs gs'"
  by (induction gs arbitrary: gs') (auto split: sum.splits)

lemma list_all2_map_eq:
  "list_all2 P xs ys \<Longrightarrow> (\<And>x y. x \<in> set xs \<Longrightarrow> P x y \<Longrightarrow> phi y = psi x) \<Longrightarrow> map phi ys = map psi xs"
  by (induction rule: list_all2_induct) auto

lemma groupby_apply_rows:
  assumes "groupby_apply U df cols f = Inr out"
  shows "(rows df = [] \<and> out = df) \<or>
         (rows df \<noteq> [] \<and> (\<exists>gs'. list_all2 (\<lambda>g g'. f g = Inr g') (group_frames df cols) gs' \<and>
                                rows out = concat (map rows gs')))"
proof (cases "rows df = []")
  case True
  with assms show ?thesis by (auto simp add: groupby_apply_def split: if_splits)
next
  case False
  with assms obtain gs' where gs': "apply_all f (group_frames df cols) = Inr gs'" and pc: "pd_concat gs' = Inr out"
    by (auto simp add: groupby_apply_def split: if_splits sum.splits)
  from pc have "rows out = concat (map rows gs')"
    by (auto simp add: pd_concat_def split: list.splits)
  with apply_all_Inr[OF gs'] False show ?thesis by blast
qed

lemma filter_concat_blocks:
  assumes "distinct ks" and "\<And>k' r. k' \<in> set ks \<Longrightarrow> r \<in> set (B k') \<Longrightarrow> h r = k'"
  shows "filter (\<lambda>r. h r = k) (concat (map B ks)) = (if k \<in> set ks then B k else [])"
  using assms
proof (induction ks)
  case Nil
  then show ?case by simp
next
  case (Cons k' ks)
  have ih: "filter (\<lambda>r. h r = k) (concat (map B ks)) = (if k \<in> set ks then B k else [])"
    using Cons by auto
  have all: "\<And>r. r \<in> set (B k') \<Longrightarrow> h r = k'" using Cons.prems(2) by auto
  show ?case
  proof (cases "k = k'")
    case True
    then have "filter (\<lambda>r. h r = k) (B k') = B k'" using all by (auto intro: filter_True)
    moreover have "k \<notin> set ks" using True Cons.prems(1) by auto
    ultimately show ?thesis using ih True by simp
  next
    case False
    then have "filter (\<lambda>r. h r = k) (B k') = []" using all by (auto simp add: filter_empty_conv)
    then show ?thesis using ih False by simp
  qed
qed

lemma groupby_apply_blocks:
  assumes ga: "groupby_apply U df cols f = Inr out"
    and F: "\<And>g g'. rows g \<noteq> [] \<Longrightarrow> f g = Inr g' \<Longrightarrow> rows g' = F (rows g)"
    and key: "\<And>rs. map (group_key cols) (F rs) = map (group_key cols) rs"
    and F0: "F [] = []"
  shows "filter (\<lambda>r. group_key cols r = k) (rows out) = F (filter (\<lambda>r. group_key cols r = k) (rows df))"
proof -
  let ?ks = "sort (remdups (map (group_key cols) (rows df)))"
  let ?B = "\<lambda>k. F (filter (\<lambda>r. group_key cols r = k) (rows df))"
  from groupby_apply_rows[OF ga] show ?thesis
  proof
    assume "rows df = [] \<and> out = df"
    then show ?thesis by (simp add: F0)
  next
    assume "rows df \<noteq> [] \<and> (\<exists>gs'. list_all2 (\<lambda>g g'. f g = Inr g') (group_frames df cols) gs' \<and>
                                rows out = concat (map rows gs'))"
    then obtain gs' where l: "list_all2 (\<lambda>g g'. f g = Inr g') (group_frames df cols) gs'"
      and ro: "rows out = concat (map rows gs')" by blast
    have "map rows gs' = map (\<lambda>g. F (rows g)) (group_frames df cols)"
    proof (rule list_all2_map_eq[OF l])
      fix g g' assume g: "g \<in> set (group_frames df cols)" and fg: "f g = Inr g'"
      from g obtain k' where "k' \<in> group_key cols ` set (rows df)"
        and "g = df\<lparr>rows := filter (\<lambda>r. group_key cols r = k') (rows df)\<rparr>"
        by (auto simp add: group_frames_def)
      then have "rows g \<noteq> []" by (auto simp add: filter_empty_conv)
      from F[OF this fg] show "rows g' = F (rows g)" .
    qed
    then have "map rows gs' = map ?B ?ks"
      by (simp add: group_frames_def comp_def)
    then have ro': "rows out = concat (map ?B ?ks)" using ro by simp
    have d: "distinct ?ks" by simp
    have kk: "\<And>k' r. k' \<in> set ?ks \<Longrightarrow> r \<in> set (?B k') \<Longrightarrow> group_key cols r = k'"
    proof -
      fix k' r assume "r \<in> set (?B k')"
      then have "group_key cols r \<in> set (map (group_key cols) (?B k'))" by simp
      then have "group_key cols r \<in> set (map (group_key cols) (filter (\<lambda>r. group_key cols r = k') (rows df)))"
        by (simp only: key)
      then show "group_key cols r = k'" by auto
    qed
    have "filter (\<lambda>r. group_key cols r = k) (rows out) = (if k \<in> set ?ks then ?B k else [])"
      unfolding ro' by (rule filter_concat_blocks[OF d kk])
    moreover have "k \<notin> set ?ks \<Longrightarrow> filter (\<lambda>r. group_key cols r = k) (rows df) = []"
      by (auto simp add: filter_empty_conv)
    ultimately show ?thesis by (auto simp add: F0)
  qed
qed

lemma map_map2_inv:
  "length rs = length js \<Longrightarrow> (\<And>r i. f (g r i) = f r) \<Longrightarrow> map f (map2 g rs js) = map f rs"
  by (induction rs js rule: list_induct2) auto

lemma stack_rows_Nil: "stack_rows sd [] = []"
  by (simp add: stack_rows_def)

lemma length_stack_rows: "length (stack_rows sd rs) = length rs"
  by (simp add: stack_rows_def del: upt_Suc)

lemma stack_rows_inv:
  assumes "\<And>v r. f (put ''countidx'' v r) = f r" and "\<And>v r. f (put ''stackpos'' v r) = f r"
  shows "map f (stack_rows sd rs) = map f rs"
  unfolding stack_rows_def
  by (rule map_map2_inv) (simp_all add: assms del: upt_Suc)

lemma map_map2_snd:
  "length rs = length js \<Longrightarrow> (\<And>r i. f (g r i) = k i) \<Longrightarrow> map f (map2 g rs js) = map k js"
  by (induction rs js rule: list_induct2) auto

lemma stack_rows_countidx:
  "map (\<lambda>r. num r ''countidx'') (stack_rows sd rs) = map real [1..<Suc (length rs)]"
  unfolding stack_rows_def
  by (rule map_map2_snd) (simp_all add: num_put del: upt_Suc)

lemma stack_rows_stackpos:
  "map (\<lambda>r. num r ''stackpos'') (stack_rows sd rs) = map (expected_stackpos sd (length rs)) [1..<Suc (length rs)]"
  unfolding stack_rows_def
  by (rule map_map2_snd) (simp_all add: num_put del: upt_Suc)

lemma stack_rows_erase:
  "map (put ''stackpos'' 0) (stack_rows sd rs) =
     map2 (\<lambda>r i. put ''stackpos'' 0 (put ''countidx'' (real i) r)) rs [1..<Suc (length rs)]"
  by (simp add: stack_rows_def put_put_same comp_def case_prod_unfold del: upt_Suc)

lemma stack_rows_key:
  assumes "''countidx'' \<notin> set cols" and "''stackpos'' \<notin> set cols"
  shows "map (group_key cols) (stack_rows sd rs) = map (group_key cols) rs"
  by (rule stack_rows_inv) (simp_all add: group_key_put assms)

lemma stack_dots_rows:
  assumes sd: "stack_dots U gp sp d1 = Inr stacked"
    and bx: "sp_binaxis sp \<notin> {''countidx'', ''stackpos''}"
  shows "\<exists>filled. fill_bins d1 = Inr filled \<and>
           groupby_apply U filled (groupvars gp sp) (func (choose_stacking (gp_stackdir gp))) = Inr stacked \<and>
           (\<forall>k. filter (\<lambda>r. group_key (groupvars gp sp) r = k) (rows stacked) =
                stack_rows (gp_stackdir gp) (filter (\<lambda>r. group_key (groupvars gp sp) r = k) (rows filled)))"
proof -
  from sd obtain filled where fb: "fill_bins d1 = Inr filled"
    and ga: "groupby_apply U filled (groupvars gp sp) (func (choose_stacking (gp_stackdir gp))) = Inr stacked"
    by (auto simp add: stack_dots_def split: sum.splits)
  have c1: "''countidx'' \<notin> set (groupvars gp sp)" and c2: "''stackpos'' \<notin> set (groupvars gp sp)"
    using bx by (auto simp add: groupvars_def)
  have "\<And>k. filter (\<lambda>r. group_key (groupvars gp sp) r = k) (rows stacked) =
                stack_rows (gp_stackdir gp) (filter (\<lambda>r. group_key (groupvars gp sp) r = k) (rows filled))"
    by (rule groupby_apply_blocks[OF ga])
       (simp_all add: func_rows stack_rows_key[OF c1 c2] stack_rows_Nil)
  with fb ga show ?thesis by blast
qed

lemma fill_idx_replicate:
  "map (\<lambda>i. rs ! i) (fill_idx (map cnt rs)) = concat (map (\<lambda>r. replicate (nat (py_int (cnt r))) r) rs)"
proof -
  have "map (map (\<lambda>i. rs ! i)) (map (\<lambda>(i, c). map (\<lambda>j. i) (py_range (py_int c))) (enumerate 0 (map cnt rs))) =
        map (\<lambda>r. replicate (nat (py_int (cnt r))) r) rs"
    by (rule nth_equalityI) (simp_all add: enumerate_eq_zip py_range_def map_replicate_const)
  then have "concat (map (map (\<lambda>i. rs ! i)) (map (\<lambda>(i, c). map (\<lambda>j. i) (py_range (py_int c))) (enumerate 0 (map cnt rs)))) =
        concat (map (\<lambda>r. replicate (nat (py_int (cnt r))) r) rs)"
    by (rule arg_cong)
  then show ?thesis
    by (simp only: fill_idx_def map_concat)
qed

lemma fill_bins_rows:
  assumes "fill_bins data = Inr filled"
  shows "rows filled = concat (map (\<lambda>r. replicate (nat (py_int (num r ''count''))) r) (rows data))"
proof -
  from assms have "rows filled = map (\<lambda>i. rows data ! i) (fill_idx (map (\<lambda>r. num r ''count'') (rows data)))"
    by (auto simp add: fill_bins_def col_def iloc_def split: if_splits sum.splits)
  then show ?thesis by (simp only: fill_idx_replicate)
qed

lemma mset_filter_disj:
  "(\<And>x. x \<in> set xs \<Longrightarrow> \<not> (P x \<and> Q x)) \<Longrightarrow>
     mset (filter P xs) + mset (filter Q xs) = mset (filter (\<lambda>x. P x \<or> Q x) xs)"
  by (induction xs) auto

lemma mset_groups:
  assumes "distinct ks"
  shows "mset (concat (map (\<lambda>k. filter (\<lambda>r. h r = k) xs) ks)) = mset (filter (\<lambda>r. h r \<in> set ks) xs)"
  using assms
proof (induction ks)
  case Nil
  then show ?case by simp
next
  case (Cons k ks)
  have "mset (filter (\<lambda>r. h r = k) xs) + mset (filter (\<lambda>r. h r \<in> set ks) xs) =
        mset (filter (\<lambda>r. h r = k \<or> h r \<in> set ks) xs)"
    using Cons.prems by (intro mset_filter_disj) auto
  with Cons show ?case by simp
qed

lemma mset_group_frames: "mset (concat (map rows (group_frames df cols))) = mset (rows df)"
proof -
  let ?ks = "sort (remdups (map (group_key cols) (rows df)))"
  have "concat (map rows (group_frames df cols)) = concat (map (\<lambda>k. filter (\<lambda>r. group_key cols r = k) (rows df)) ?ks)"
    by (simp add: group_frames_def comp_def)
  moreover have "mset (concat (map (\<lambda>k. filter (\<lambda>r. group_key cols r = k) (rows df)) ?ks)) =
                 mset (filter (\<lambda>r. group_key cols r \<in> set ?ks) (rows df))"
    by (rule mset_groups) simp
  moreover have "filter (\<lambda>r. group_key cols r \<in> set ?ks) (rows df) = rows df"
    by (rule filter_True) simp
  ultimately show ?thesis by simp
qed

lemma groupby_apply_mset:
  assumes ga: "groupby_apply U df cols f = Inr out"
    and inv: "\<And>g g'. f g = Inr g' \<Longrightarrow> map h (rows g') = map h (rows g)"
  shows "mset (map h (rows out)) = mset (map h (rows df))"
proof -
  from groupby_apply_rows[OF ga] show ?thesis
  proof
    assume "rows df = [] \<and> out = df"
    then show ?thesis by simp
  next
    assume "rows df \<noteq> [] \<and> (\<exists>gs'. list_all2 (\<lambda>g g'. f g = Inr g') (group_frames df cols) gs' \<and>
                                rows out = concat (map rows gs'))"
    then obtain gs' where l: "list_all2 (\<lambda>g g'. f g = Inr g') (group_frames df cols) gs'"
      and ro: "rows out = concat (map rows gs')" by blast
    have "map (\<lambda>g'. map h (rows g')) gs' = map (\<lambda>g. map h (rows g)) (group_frames df cols)"
      by (rule list_all2_map_eq[OF l]) (rule inv)
    then have "concat (map (\<lambda>g'. map h (rows g')) gs') = concat (map (\<lambda>g. map h (rows g)) (group_frames df cols))"
      by (rule arg_cong)
    then have "map h (rows out) = map h (concat (map rows (group_frames df cols)))"
      by (simp add: ro map_concat comp_def)
    then show ?thesis by (simp add: mset_group_frames)
  qed
qed

lemma func_y_rows:
  assumes "func_y data g = Inr g'"
  shows "\<exists>v1 v2. rows g' = map (\<lambda>r. put ''ymax'' v2 (put ''ymin'' v1 r)) (rows g)"
proof -
  from assms obtain a b where "g' = set_col_scalar (set_col_scalar g ''ymin'' a) ''ymax'' b"
    by (auto simp add: func_y_def Let_def split: sum.splits)
  then have "rows g' = map (\<lambda>r. put ''ymax'' b (put ''ymin'' a r)) (rows g)"
    by (simp add: rows_set_col_scalar comp_def)
  then show ?thesis by blast
qed

lemma bounding_boxes_inv:
  assumes bb: "bounding_boxes U st bx d = Inr out"
    and inv: "\<And>c v r. c \<in> {''xmin'', ''xmax'', ''ymin'', ''ymax''} \<Longrightarrow> h (put c v r) = h r"
    and invy: "\<And>v r. bx = ''x'' \<Longrightarrow> h (put ''y'' v r) = h r"
  shows "mset (map h (rows out)) = mset (map h (rows d)) \<and> (bx \<noteq> ''y'' \<longrightarrow> map h (rows out) = map h (rows d))"
proof -
  consider (x) "bx = ''x''" | (y) "bx = ''y''" | (other) "bx \<noteq> ''x''" "bx \<noteq> ''y''" by blast
  then show ?thesis
  proof cases
    case x
    from bb x have "bounding_boxes U st ''x'' d = Inr out" by simp
    from bounding_boxes_x[OF this] obtain s :: stacking where
      "rows out = map (\<lambda>r. put ''y'' 0 (put ''ymax'' (stackaxismax s) (put ''ymin'' (stackaxismin s)
                         (put ''xmax'' (num r ''x'' + num r ''binwidth'' / 2)
                           (put ''xmin'' (num r ''x'' - num r ''binwidth'' / 2) r))))) (rows d)"
      by blast
    then have "map h (rows out) = map h (rows d)"
      by (simp add: comp_def inv invy[OF x])
    then show ?thesis by simp
  next
    case y
    from bb y obtain d1 and s :: stacking where
      ga: "groupby_apply U d [''group''] (func_y d) = Inr d1" and
      ro: "out = set_col_rowwise (set_col_rowwise d1 ''xmin'' (\<lambda>r. num r ''x'' + num r ''width'' * stackaxismin s))
                   ''xmax'' (\<lambda>r. num r ''x'' + num r ''width'' * stackaxismax s)"
      by (auto simp add: bounding_boxes_def Let_def split: sum.splits if_splits option.splits)
    have "mset (map h (rows d1)) = mset (map h (rows d))"
    proof (rule groupby_apply_mset[OF ga])
      fix g g' assume "func_y d g = Inr g'"
      from func_y_rows[OF this] obtain v1 v2 where "rows g' = map (\<lambda>r. put ''ymax'' v2 (put ''ymin'' v1 r)) (rows g)"
        by blast
      then show "map h (rows g') = map h (rows g)" by (simp add: comp_def inv)
    qed
    moreover have "map h (rows out) = map h (rows d1)"
      unfolding ro by (simp add: rows_set_col_rowwise comp_def inv)
    ultimately show ?thesis using y by simp
  next
    case other
    with bb have "out = d" by (simp add: bounding_boxes_def)
    then show ?thesis by simp
  qed
qed

lemma key_inv:
  assumes "sp_binaxis sp \<in> {''x'', ''y''}" and "c \<in> {''xmin'', ''xmax'', ''ymin'', ''ymax''}"
  shows "group_key (groupvars gp sp) (put c v r) = group_key (groupvars gp sp) r"
  using assms by (intro group_key_put) (auto simp add: groupvars_def)

lemma key_inv_y:
  assumes "sp_binaxis sp = ''x''"
  shows "group_key (groupvars gp sp) (put ''y'' v r) = group_key (groupvars gp sp) r"
  using assms by (intro group_key_put) (auto simp add: groupvars_def)

lemma bounding_boxes_other: "bx \<notin> {''x'', ''y''} \<Longrightarrow> bounding_boxes U st bx d = Inr out \<Longrightarrow> out = d"
  by (simp add: bounding_boxes_def)

lemma bounding_boxes_stacks:
  assumes bb: "bounding_boxes U st (sp_binaxis sp) stacked = Inr out"
    and h: "h = (\<lambda>r. (group_key (groupvars gp sp) r, f r))"
    and f: "\<And>c v r. c \<in> {''xmin'', ''xmax'', ''ymin'', ''ymax'', ''y''} \<Longrightarrow> f (put c v r) = f r"
  shows "mset (map h (rows out)) = mset (map h (rows stacked)) \<and>
         (sp_binaxis sp \<noteq> ''y'' \<longrightarrow> map h (rows out) = map h (rows stacked))"
proof (cases "sp_binaxis sp \<in> {''x'', ''y''}")
  case True
  show ?thesis
  proof (rule bounding_boxes_inv[OF bb])
    fix c :: string and v r assume "c \<in> {''xmin'', ''xmax'', ''ymin'', ''ymax''}"
    then show "h (put c v r) = h r"
      using key_inv[OF True, of c gp v r] f[of c v r] by (auto simp add: h)
  next
    fix v r assume "sp_binaxis sp = ''x''"
    then show "h (put ''y'' v r) = h r"
      using key_inv_y[of sp gp v r] f[of "''y''" v r] by (simp add: h)
  qed
next
  case False
  from bounding_boxes_other[OF False bb] show ?thesis by simp
qed

lemma Max_countidx:
  assumes "1 \<le> n"
  shows "Max ((\<lambda>c. c - 1) ` set (map real [1..<Suc n])) = real n - 1"
proof (rule Max_eqI)
  show "finite ((\<lambda>c. c - 1) ` set (map real [1..<Suc n]))" by simp
  show "\<And>y. y \<in> (\<lambda>c. c - 1) ` set (map real [1..<Suc n]) \<Longrightarrow> y \<le> real n - 1" by auto
  show "real n - 1 \<in> (\<lambda>c. c - 1) ` set (map real [1..<Suc n])" using assms by force
qed

lemma groupby_apply_bound:
  assumes "groupby_apply U df cols (func st) = Inr out" and "rows df \<noteq> []"
  shows "st \<noteq> None"
proof
  assume "st = None"
  with assms(1) have "\<not> isl (groupby_apply U df cols (func None))" by simp
  with groupby_apply_unbound[of df U cols] assms(2) show False by simp
qed

lemma stack_member:
  assumes "q \<in> set (stack_rows sd rs)"
  shows "\<exists>i. 1 \<le> i \<and> i \<le> length rs \<and> num q ''countidx'' = real i \<and>
             num q ''stackpos'' = expected_stackpos sd (length rs) i"
proof -
  from assms obtain j where j: "j < length (stack_rows sd rs)" and q: "q = stack_rows sd rs ! j"
    by (auto simp add: in_set_conv_nth)
  then have jn: "j < length rs" by (simp add: length_stack_rows)
  have "num q ''countidx'' = map (\<lambda>r. num r ''countidx'') (stack_rows sd rs) ! j"
    using j q by simp
  then have c: "num q ''countidx'' = real (Suc j)"
    using jn by (simp only: stack_rows_countidx) (simp del: upt_Suc)
  have "num q ''stackpos'' = map (\<lambda>r. num r ''stackpos'') (stack_rows sd rs) ! j"
    using j q by simp
  then have p: "num q ''stackpos'' = expected_stackpos sd (length rs) (Suc j)"
    using jn by (simp only: stack_rows_stackpos) (simp del: upt_Suc)
  from c p jn show ?thesis by (intro exI[of _ "Suc j"]) simp
qed

lemma image_filter_factor:
  "(\<lambda>q. g (c q)) ` {q \<in> A. kf q = k} =
   (\<lambda>t. g (fst (snd t))) ` {t \<in> (\<lambda>r. (kf r, c r, p r)) ` A. fst t = k}"
  by force

text \<open>
  C1.  In the frame \<^verbatim>\<open>setup_data\<close> returns, every dot has a 1-based index
  \<^verbatim>\<open>countidx\<close> and its \<^verbatim>\<open>stackpos\<close> follows from it by the \<^verbatim>\<open>stackdir\<close>:
  \<^verbatim>\<open>None\<close> or \<^verbatim>\<open>'up'\<close> gives \<open>countidx - 1/2\<close> with stack-axis range 0 to 1;
  \<^verbatim>\<open>'down'\<close> gives \<open>- countidx + 1/2\<close> with range -1 to 0; \<^verbatim>\<open>'center'\<close> gives
  \<open>(countidx - 1) - top / 2\<close> and \<^verbatim>\<open>'centerwhole'\<close> gives
  \<open>(countidx - 1) - floor (top / 2)\<close>, both with range -1/2 to 1/2, where \<open>top\<close> is the
  maximum of \<open>countidx - 1\<close> over the dot's stack (the rows of the returned frame with the
  same values in the grouping columns).  The bin axis is any column but the two that
  the stacking itself writes; in particular \<^verbatim>\<open>'x'\<close> and \<^verbatim>\<open>'y'\<close>.
\<close>

theorem setup_data_stackpos:
  assumes res: "result (setup_data U self data) = Inr out"
    and bx: "sp_binaxis (stat_params self) \<notin> {''countidx'', ''stackpos''}"
    and r: "r \<in> set (rows out)"
  shows "\<exists>i s. 1 \<le> i \<and> num r ''countidx'' = real i \<and>
           choose_stacking (gp_stackdir (params self)) = Some s \<and>
           (let sd = gp_stackdir (params self);
                top = Max ((\<lambda>q. num q ''countidx'' - 1) `
                        {q \<in> set (rows out). group_key (groupvars (params self) (stat_params self)) q =
                                            group_key (groupvars (params self) (stat_params self)) r})
            in (sd = None \<or> sd = Some ''up'' \<longrightarrow>
                  num r ''stackpos'' = num r ''countidx'' - 1 / 2 \<and> stackaxismin s = 0 \<and> stackaxismax s = 1) \<and>
               (sd = Some ''down'' \<longrightarrow>
                  num r ''stackpos'' = - num r ''countidx'' + 1 / 2 \<and> stackaxismin s = - 1 \<and> stackaxismax s = 0) \<and>
               (sd = Some ''center'' \<longrightarrow>
                  num r ''stackpos'' = num r ''countidx'' - 1 - top / 2 \<and>
                  stackaxismin s = - (1 / 2) \<and> stackaxismax s = 1 / 2) \<and>
               (sd = Some ''centerwhole'' \<longrightarrow>
                  num r ''stackpos'' = num r ''countidx'' - 1 - of_int \<lfloor>top / 2\<rfloor> \<and>
                  stackaxismin s = - (1 / 2) \<and> stackaxismax s = 1 / 2))"
proof -
  let ?gp = "params self" and ?sp = "stat_params self"
  let ?gv = "groupvars ?gp ?sp"
  let ?sd = "gp_stackdir ?gp"
  let ?h = "\<lambda>r. (group_key ?gv r, num r ''countidx'', num r ''stackpos'')"
  let ?k = "group_key ?gv r"
  from setup_data_result[OF res] obtain d1 stacked where
    sd: "stack_dots U ?gp ?sp d1 = Inr stacked" and
    bb: "bounding_boxes U (choose_stacking ?sd) (sp_binaxis ?sp) stacked = Inr out"
    by blast
  from stack_dots_rows[OF sd bx] obtain filled where
    ga: "groupby_apply U filled ?gv (func (choose_stacking ?sd)) = Inr stacked" and
    st: "\<And>k. filter (\<lambda>q. group_key ?gv q = k) (rows stacked) =
              stack_rows ?sd (filter (\<lambda>q. group_key ?gv q = k) (rows filled))"
    by blast
  let ?fk = "filter (\<lambda>q. group_key ?gv q = ?k) (rows filled)"
  let ?n = "length ?fk"
  have inv: "\<And>c v r. c \<in> {''xmin'', ''xmax'', ''ymin'', ''ymax'', ''y''} \<Longrightarrow>
      (\<lambda>r. (num r ''countidx'', num r ''stackpos'')) (put c v r) = (\<lambda>r. (num r ''countidx'', num r ''stackpos'')) r"
    by (auto simp add: num_put)
  from bounding_boxes_stacks[OF bb refl inv, of ?gp]
  have "mset (map ?h (rows out)) = mset (map ?h (rows stacked))"
    by simp
  then have hs: "set (map ?h (rows out)) = set (map ?h (rows stacked))"
    by (rule mset_eq_setD)
  from r have "?h r \<in> set (map ?h (rows out))" by (rule imageI[of r "set (rows out)" ?h, folded set_map])
  then have "?h r \<in> set (map ?h (rows stacked))" by (simp only: hs)
  then have "?h r \<in> ?h ` set (rows stacked)" by (simp only: set_map)
  then obtain q where q: "q \<in> set (rows stacked)" and hq: "?h q = ?h r" by (rule imageE) simp
  then have "q \<in> set (filter (\<lambda>q. group_key ?gv q = ?k) (rows stacked))" by simp
  then have qs: "q \<in> set (stack_rows ?sd ?fk)" by (simp only: st)
  from stack_member[OF qs] obtain i where
    i: "1 \<le> i" "i \<le> ?n" and ci: "num q ''countidx'' = real i" and
    pi: "num q ''stackpos'' = expected_stackpos ?sd ?n i"
    by blast
  from hq ci pi have rc: "num r ''countidx'' = real i" and rp: "num r ''stackpos'' = expected_stackpos ?sd ?n i"
    by simp_all
  have n1: "1 \<le> ?n" using i by simp
  then have "rows filled \<noteq> []" by auto
  from groupby_apply_bound[OF ga this] obtain s where s: "choose_stacking ?sd = Some s" by auto
  have hs': "?h ` set (rows out) = ?h ` set (rows stacked)"
    using hs by (simp only: set_map)
  have "(\<lambda>q. num q ''countidx'' - 1) ` {q \<in> set (rows out). group_key ?gv q = ?k} =
        (\<lambda>t. fst (snd t) - 1) ` {t \<in> ?h ` set (rows out). fst t = ?k}"
    by (rule image_filter_factor[of "\<lambda>c. c - 1" "\<lambda>q. num q ''countidx''" "set (rows out)" "group_key ?gv" ?k
          "\<lambda>q. num q ''stackpos''"])
  also have "\<dots> = (\<lambda>t. fst (snd t) - 1) ` {t \<in> ?h ` set (rows stacked). fst t = ?k}"
    by (simp only: hs')
  also have "\<dots> = (\<lambda>q. num q ''countidx'' - 1) ` {q \<in> set (rows stacked). group_key ?gv q = ?k}"
    by (rule image_filter_factor[of "\<lambda>c. c - 1" "\<lambda>q. num q ''countidx''" "set (rows stacked)" "group_key ?gv" ?k
          "\<lambda>q. num q ''stackpos''", symmetric])
  also have "\<dots> = (\<lambda>c. c - 1) ` set (map (\<lambda>q. num q ''countidx'') (filter (\<lambda>q. group_key ?gv q = ?k) (rows stacked)))"
    by (simp only: set_map set_filter image_image)
  also have "\<dots> = (\<lambda>c. c - 1) ` set (map real [1..<Suc ?n])"
    by (simp only: st stack_rows_countidx)
  finally have top: "Max ((\<lambda>q. num q ''countidx'' - 1) ` {q \<in> set (rows out). group_key ?gv q = ?k}) = real ?n - 1"
    by (simp only: Max_countidx[OF n1])
  note tb = stackaxis_table[OF s]
  show ?thesis
    apply (rule exI[of _ i], rule exI[of _ s])
    using i(1) rc rp s tb
    by (simp only: Let_def top) (auto simp add: expected_stackpos_def)
qed

lemma example_center_runs:
  "result (setup_data example_utils (example_geom (Some ''center'') True ''x'') example_data) =
     Inr (projr (result (setup_data example_utils (example_geom (Some ''center'') True ''x'') example_data)))"
  by (simp add: example_defs frame_defs setup_defs)

lemma example_center_rows:
  "map (\<lambda>r. (num r ''x'', num r ''countidx'', num r ''stackpos''))
     (rows (projr (result (setup_data example_utils (example_geom (Some ''center'') True ''x'') example_data)))) =
   [(1, 1, - 1), (1, 2, 0), (1, 3, 1)]"
  by (simp add: example_defs frame_defs setup_defs)

theorem setup_data_stackpos_witness:
  "result (setup_data example_utils (example_geom (Some ''center'') True ''x'') example_data) =
     Inr (projr (result (setup_data example_utils (example_geom (Some ''center'') True ''x'') example_data))) \<and>
   sp_binaxis (stat_params (example_geom (Some ''center'') True ''x'')) \<notin> {''countidx'', ''stackpos''} \<and>
   hd (rows (projr (result (setup_data example_utils (example_geom (Some ''center'') True ''x'') example_data)))) \<in>
     set (rows (projr (result (setup_data example_utils (example_geom (Some ''center'') True ''x'') example_data)))) \<and>
   map (\<lambda>r. (num r ''x'', num r ''countidx'', num r ''stackpos''))
     (rows (projr (result (setup_data example_utils (example_geom (Some ''center'') True ''x'') example_data)))) =
   [(1, 1, - 1), (1, 2, 0), (1, 3, 1)]"
proof -
  let ?out = "projr (result (setup_data example_utils (example_geom (Some ''center'') True ''x'') example_data))"
  have b: "sp_binaxis (stat_params (example_geom (Some ''center'') True ''x'')) \<notin> {''countidx'', ''stackpos''}"
    by (simp add: example_geom_def)
  have "rows ?out \<noteq> []" using example_center_rows by auto
  then have c: "hd (rows ?out) \<in> set (rows ?out)" by simp
  from setup_data_stackpos[OF example_center_runs b c] example_center_runs b c example_center_rows
  show ?thesis by blast
qed

text \<open>
  C6, as the code has it.  \<^verbatim>\<open>setup_data\<close> replaces each row with count \<open>c\<close> by
  \<open>max (int c) 0\<close> copies of it, in place (a row whose count truncates to zero or
  less yields no dot: \<^verbatim>\<open>range\<close> of a negative number is empty).  In the frame of
  stacked dots (after line 123) each stack -- the rows with one value of the bin axis
  and \<^verbatim>\<open>PANEL\<close>, and of \<^verbatim>\<open>group\<close> unless \<^verbatim>\<open>stackgroups\<close> -- consists of the
  replicated rows of that stack in their order, with \<^verbatim>\<open>countidx\<close> 1, 2, ..., n in
  that order (and \<^verbatim>\<open>stackpos\<close> set).  The returned frame holds the same dots with the
  same stack and \<^verbatim>\<open>countidx\<close>: row by row unless the bin axis is \<^verbatim>\<open>'y'\<close>, where the
  bounding-box step regroups the rows by \<^verbatim>\<open>group\<close>.
\<close>

theorem setup_data_fill_bins:
  assumes res: "result (setup_data U self data) = Inr out"
    and bx: "sp_binaxis (stat_params self) \<notin> {''countidx'', ''stackpos''}"
  shows "\<exists>filled stacked.
      fill_bins (caller_data (setup_data U self data)) = Inr filled \<and>
      map (\<lambda>r. num r ''count'') (rows (caller_data (setup_data U self data))) = map (\<lambda>r. num r ''count'') (rows data) \<and>
      rows filled = concat (map (\<lambda>r. replicate (nat (py_int (num r ''count''))) r)
                             (rows (caller_data (setup_data U self data)))) \<and>
      stack_dots U (params self) (stat_params self) (caller_data (setup_data U self data)) = Inr stacked \<and>
      (\<forall>k. map (put ''stackpos'' 0)
              (filter (\<lambda>r. group_key (groupvars (params self) (stat_params self)) r = k) (rows stacked)) =
            map2 (\<lambda>r i. put ''stackpos'' 0 (put ''countidx'' (real i) r))
              (filter (\<lambda>r. group_key (groupvars (params self) (stat_params self)) r = k) (rows filled))
              [1..<Suc (length (filter (\<lambda>r. group_key (groupvars (params self) (stat_params self)) r = k) (rows filled)))]) \<and>
      mset (map (\<lambda>r. (group_key (groupvars (params self) (stat_params self)) r, num r ''countidx'')) (rows out)) =
        mset (map (\<lambda>r. (group_key (groupvars (params self) (stat_params self)) r, num r ''countidx'')) (rows stacked)) \<and>
      (sp_binaxis (stat_params self) \<noteq> ''y'' \<longrightarrow>
         map (\<lambda>r. (group_key (groupvars (params self) (stat_params self)) r, num r ''countidx'')) (rows out) =
         map (\<lambda>r. (group_key (groupvars (params self) (stat_params self)) r, num r ''countidx'')) (rows stacked))"
proof -
  let ?gp = "params self" and ?sp = "stat_params self"
  let ?gv = "groupvars ?gp ?sp"
  let ?sd = "gp_stackdir ?gp"
  let ?h = "\<lambda>r. (group_key ?gv r, num r ''countidx'')"
  from setup_data_result[OF res] obtain d1 stacked where
    ew: "ensure_width U ?sp data = Inr d1" and
    cd: "caller_data (setup_data U self data) = d1" and
    sd: "stack_dots U ?gp ?sp d1 = Inr stacked" and
    bb: "bounding_boxes U (choose_stacking ?sd) (sp_binaxis ?sp) stacked = Inr out"
    by blast
  from stack_dots_rows[OF sd bx] obtain filled where
    fb: "fill_bins d1 = Inr filled" and
    st: "\<And>k. filter (\<lambda>q. group_key ?gv q = k) (rows stacked) =
              stack_rows ?sd (filter (\<lambda>q. group_key ?gv q = k) (rows filled))"
    by blast
  have inv: "\<And>c v r. c \<in> {''xmin'', ''xmax'', ''ymin'', ''ymax'', ''y''} \<Longrightarrow>
      (\<lambda>r. num r ''countidx'') (put c v r) = (\<lambda>r. num r ''countidx'') r"
    by (auto simp add: num_put)
  note b = bounding_boxes_stacks[OF bb refl inv, of ?gp]
  have e: "\<And>k. map (put ''stackpos'' 0) (filter (\<lambda>r. group_key ?gv r = k) (rows stacked)) =
            map2 (\<lambda>r i. put ''stackpos'' 0 (put ''countidx'' (real i) r))
              (filter (\<lambda>r. group_key ?gv r = k) (rows filled))
              [1..<Suc (length (filter (\<lambda>r. group_key ?gv r = k) (rows filled)))]"
    by (simp only: st stack_rows_erase)
  show ?thesis
    apply (rule exI[of _ filled], rule exI[of _ stacked])
    using fb rows_ensure_width[OF ew] fill_bins_rows[OF fb] sd e b
    by (simp only: cd) simp
qed

lemma example_x_rows:
  "map (\<lambda>r. (num r ''x'', num r ''group'', num r ''countidx''))
     (rows (projr (result (setup_data example_utils (example_geom None False ''x'') example_data)))) =
   [(1, 1, 1), (1, 1, 2), (1, 2, 1)]"
  by (simp add: example_defs frame_defs setup_defs)

theorem setup_data_fill_bins_witness:
  "result (setup_data example_utils (example_geom None False ''x'') example_data) =
     Inr (projr (result (setup_data example_utils (example_geom None False ''x'') example_data))) \<and>
   sp_binaxis (stat_params (example_geom None False ''x'')) \<notin> {''countidx'', ''stackpos''} \<and>
   map (\<lambda>r. num r ''count'') (rows example_data) = [2, 0, 1] \<and>
   map (\<lambda>r. (num r ''x'', num r ''group'', num r ''countidx''))
     (rows (projr (result (setup_data example_utils (example_geom None False ''x'') example_data)))) =
   [(1, 1, 1), (1, 1, 2), (1, 2, 1)]"
proof -
  have b: "sp_binaxis (stat_params (example_geom None False ''x'')) \<notin> {''countidx'', ''stackpos''}"
    by (simp add: example_geom_def)
  have c: "map (\<lambda>r. num r ''count'') (rows example_data) = [2, 0, 1]"
    by (simp add: example_defs put_def)
  from setup_data_fill_bins[OF example_x_runs b] example_x_runs b c example_x_rows
  show ?thesis by blast
qed

text \<open>
  C6 as stated fails for a negative count: a bin with count \<open>-1\<close> (\<^verbatim>\<open>int\<close> gives
  \<open>-1\<close>) yields no row at all, so of the two bins with counts \<open>-1\<close> and \<open>1\<close> the one
  dot at \<open>x = 2\<close> is returned.
\<close>

theorem fill_bins_negative_count:
  "py_int (num (hd (rows example_negative)) ''count'') = - 1 \<and>
   py_int (num (hd (tl (rows example_negative))) ''count'') = 1 \<and>
   length (rows (projr (result (setup_data example_utils (example_geom None False ''x'') example_negative)))) = 1 \<and>
   num (hd (rows (projr (result (setup_data example_utils (example_geom None False ''x'') example_negative))))) ''x'' = 2"
  by (simp add: example_negative_def example_defs frame_defs setup_defs ceiling_def)

end
